theory Spec2Isabelle
  imports Main "HOL-Library.Word"
begin

unbundle bit_operations_syntax

section \<open>JavaScript values used by the lambdas\<close>

text \<open>
  A JavaScript string of the handlers is modelled as a \<open>string\<close>; a \<open>char\<close> stands for one
  UTF-16 code unit below 256, so \<open>length\<close> is the \<open>.length\<close> of the source. Requests holding
  code units above 255 are outside the model of the handlers. The encryption is modelled
  on strings of any code units, surrogates included.

  An exception is a value: the class of the error and its \<open>message\<close>. The handlers catch
  every exception alike and only read \<open>error.message\<close>.
\<close>

datatype exn = TypeError string | RangeError string | Error string

fun message :: "exn \<Rightarrow> string" where
  "message (TypeError m) = m"
| "message (RangeError m) = m"
| "message (Error m) = m"

text \<open>
  A JSON value as \<open>JSON.parse\<close> returns it and \<open>JSON.stringify\<close> reads it. A number is
  held as its decimal rendering (what \<open>String(n)\<close> gives), since no lambda computes with a
  number of a payload. The pairs of \<open>JObj\<close> are the own properties of the object in
  enumeration order.
\<close>

datatype json =
    JNull
  | JBool bool
  | JNum string
  | JStr string
  | JArr "json list"
  | JObj "(string \<times> json) list"

definition hexDigit :: "nat \<Rightarrow> char" where
  "hexDigit n = ''0123456789abcdef'' ! (n mod 16)"

text \<open>\<open>QuoteJSONString\<close> of ECMA-262, on code units below 256 (none is a surrogate).\<close>

definition quoteChar :: "char \<Rightarrow> string" where
  "quoteChar c =
     (if c = CHR 0x22 then [CHR 0x5C, CHR 0x22]
      else if c = CHR 0x5C then [CHR 0x5C, CHR 0x5C]
      else if c = CHR 0x08 then [CHR 0x5C, CHR ''b'']
      else if c = CHR 0x0C then [CHR 0x5C, CHR ''f'']
      else if c = CHR 0x0A then [CHR 0x5C, CHR ''n'']
      else if c = CHR 0x0D then [CHR 0x5C, CHR ''r'']
      else if c = CHR 0x09 then [CHR 0x5C, CHR ''t'']
      else if (of_char c :: nat) < 32
        then [CHR 0x5C, CHR ''u'', CHR ''0'', CHR ''0'',
              hexDigit (of_char c div 16), hexDigit (of_char c)]
      else [c])"

definition quoteJSONString :: "string \<Rightarrow> string" where
  "quoteJSONString s = [CHR 0x22] @ concat (map quoteChar s) @ [CHR 0x22]"

text \<open>\<open>Array.prototype.join\<close> on an array of strings.\<close>

fun joinWith :: "string \<Rightarrow> string list \<Rightarrow> string" where
  "joinWith sep [] = []"
| "joinWith sep [x] = x"
| "joinWith sep (x # y # ys) = x @ sep @ joinWith sep (y # ys)"

text \<open>
  \<open>JSON.stringify\<close> with one argument. A number that is not finite is written \<open>null\<close>.
\<close>

fun jsonStringify :: "json \<Rightarrow> string" where
  "jsonStringify JNull = ''null''"
| "jsonStringify (JBool b) = (if b then ''true'' else ''false'')"
| "jsonStringify (JNum n) =
     (if n = ''Infinity'' \<or> n = ''-Infinity'' \<or> n = ''NaN'' then ''null'' else n)"
| "jsonStringify (JStr s) = quoteJSONString s"
| "jsonStringify (JArr xs) = ''['' @ joinWith '','' (map jsonStringify xs) @ '']''"
| "jsonStringify (JObj ps) =
     ''{'' @ joinWith '','' (map (\<lambda>(k, v). quoteJSONString k @ '':'' @ jsonStringify v) ps) @ ''}''"

text \<open>The decimal rendering of a non-negative integer (\<open>String(n)\<close> below \<open>1e21\<close>).\<close>

fun showNat :: "nat \<Rightarrow> string" where
  "showNat n =
     (if n < 10 then [char_of (48 + n)] else showNat (n div 10) @ [char_of (48 + n mod 10)])"

declare showNat.simps [simp del]

text \<open>\<open>String.prototype.padStart\<close> and \<open>padEnd\<close> with a one-character filler.\<close>

definition padStart :: "nat \<Rightarrow> char \<Rightarrow> string \<Rightarrow> string" where
  "padStart n c s = replicate (n - length s) c @ s"

definition padEnd :: "nat \<Rightarrow> char \<Rightarrow> string \<Rightarrow> string" where
  "padEnd n c s = s @ replicate (n - length s) c"

text \<open>\<open>xs.map(f)\<close> where \<open>f\<close> may throw: the first exception ends the loop.\<close>

fun mapE :: "('a \<Rightarrow> exn + 'b) \<Rightarrow> 'a list \<Rightarrow> exn + 'b list" where
  "mapE f [] = Inr []"
| "mapE f (x # xs) =
     (case f x of
        Inl e \<Rightarrow> Inl e
      | Inr y \<Rightarrow> (case mapE f xs of Inl e \<Rightarrow> Inl e | Inr ys \<Rightarrow> Inr (y # ys)))"

text \<open>What a lambda returns to the gateway.\<close>

record response =
  statusCode :: nat
  headers :: "(string \<times> string) list"
  body :: string

section \<open>Requests and the platform\<close>

text \<open>
  The fields of an API Gateway event that the lambdas read. \<open>origin\<close> is
  \<open>event.headers?.origin || event.headers?.Origin\<close>; a missing \<open>body\<close> is \<open>None\<close>, and a
  missing \<open>queryStringParameters\<close> is the empty map.
\<close>

record event =
  httpMethod :: string
  origin :: "string option"
  requestBody :: "string option"
  queryStringParameters :: "string \<rightharpoonup> string"

text \<open>
  \<open>urlSearchParams b\<close> lists the name-value pairs of \<open>new URLSearchParams(b)\<close> in order. The
  parser is the platform's and is a parameter of the model.
\<close>

record platform =
  urlSearchParams :: "string \<Rightarrow> (string \<times> string) list"

definition isDigit :: "char \<Rightarrow> bool" where
  "isDigit c = (48 \<le> (of_char c :: nat) \<and> (of_char c :: nat) \<le> 57)"

definition digitsToNat :: "string \<Rightarrow> nat" where
  "digitsToNat s = fold (\<lambda>c n. 10 * n + (of_char c - 48)) s 0"

text \<open>
  The own properties of an ordinary object are enumerated with the array indices first, in
  ascending order, then the other names in the order they were created. An array index is
  the canonical decimal string of an integer below \<open>2^32 - 1\<close>.
\<close>

definition isArrayIndex :: "string \<Rightarrow> bool" where
  "isArrayIndex k =
     (k \<noteq> [] \<and> list_all isDigit k \<and> (if hd k = CHR ''0'' then length k = 1 else True)
      \<and> length k \<le> 10 \<and> digitsToNat k < 4294967295)"

fun insertIndexed :: "string \<Rightarrow> json \<Rightarrow> (string \<times> json) list \<Rightarrow> (string \<times> json) list" where
  "insertIndexed k v [] = [(k, v)]"
| "insertIndexed k v ((k', v') # ps) =
     (if isArrayIndex k' \<and> digitsToNat k' < digitsToNat k
      then (k', v') # insertIndexed k v ps
      else (k, v) # (k', v') # ps)"

text \<open>Defining a property: an existing one keeps its place and takes the new value.\<close>

definition setProperty :: "(string \<times> json) list \<Rightarrow> string \<Rightarrow> json \<Rightarrow> (string \<times> json) list" where
  "setProperty ps k v =
     (if k \<in> fst ` set ps then map (\<lambda>(k', v'). if k' = k then (k', v) else (k', v')) ps
      else if isArrayIndex k then insertIndexed k v ps
      else ps @ [(k, v)])"

text \<open>\<open>Object.fromEntries\<close> on the pairs of a \<open>URLSearchParams\<close>.\<close>

definition fromEntries :: "(string \<times> string) list \<Rightarrow> json" where
  "fromEntries es = JObj (fold (\<lambda>(k, v) ps. setProperty ps k (JStr v)) es [])"

text \<open>
  Reading a property that no prototype defines (the handlers read \<open>CustomData\<close> and
  \<open>VerificationStatus\<close>): \<open>None\<close> is \<open>undefined\<close>, and reading from \<open>null\<close> throws.
\<close>

fun getProp :: "json \<Rightarrow> string \<Rightarrow> exn + json option" where
  "getProp JNull p =
     Inl (TypeError (''Cannot read properties of null (reading '' @ [CHR 0x27] @ p @ [CHR 0x27] @ '')''))"
| "getProp (JObj ps) p = Inr (map_of ps p)"
| "getProp v p = Inr None"

text \<open>\<open>ToBoolean\<close> on a JSON value.\<close>

fun truthy :: "json \<Rightarrow> bool" where
  "truthy JNull = False"
| "truthy (JBool b) = b"
| "truthy (JNum n) = (n \<noteq> ''0'' \<and> n \<noteq> ''NaN'')"
| "truthy (JStr s) = (s \<noteq> [])"
| "truthy (JArr xs) = True"
| "truthy (JObj ps) = True"

section \<open>The submissions table (DynamoDB)\<close>

text \<open>
  An item maps attribute names to typed values; the lambdas write \<open>S\<close> and \<open>BOOL\<close> values
  only. The table is the list of its items in the order a scan returns them; the
  \<open>submissionId\<close> attribute is the primary key.
\<close>

datatype attr = S string | BOOL bool

type_synonym item = "string \<rightharpoonup> attr"

type_synonym table = "item list"

definition keyOf :: "item \<Rightarrow> string option" where
  "keyOf it = (case it ''submissionId'' of Some (S k) \<Rightarrow> Some k | _ \<Rightarrow> None)"

definition hasKey :: "string \<Rightarrow> item \<Rightarrow> bool" where
  "hasKey k it = (it ''submissionId'' = Some (S k))"

text \<open>The store keeps one item per key, and every item carries its key.\<close>

definition wfTable :: "table \<Rightarrow> bool" where
  "wfTable t = (list_all (\<lambda>it. keyOf it \<noteq> None) t \<and> distinct (map keyOf t))"

text \<open>\<open>GetItemCommand\<close>: the item under the key, if any.\<close>

definition getItem :: "table \<Rightarrow> string \<Rightarrow> item option" where
  "getItem t k = find (hasKey k) t"

text \<open>
  \<open>UpdateItemCommand\<close> with a \<open>SET\<close> expression: the assignments are applied to the item
  under the key; where there is none, a new item with the key and the assignments is
  created.
\<close>

definition updateItem :: "table \<Rightarrow> string \<Rightarrow> (item \<Rightarrow> item) \<Rightarrow> table" where
  "updateItem t k upd =
     (case getItem t k of
        None \<Rightarrow> t @ [upd [''submissionId'' \<mapsto> S k]]
      | Some _ \<Rightarrow> map (\<lambda>it. if hasKey k it then upd it else it) t)"

text \<open>\<open>PutItemCommand\<close>: the item replaces the one under its key, or is added.\<close>

definition putItem :: "table \<Rightarrow> string \<Rightarrow> item \<Rightarrow> table" where
  "putItem t k new =
     (case getItem t k of
        None \<Rightarrow> t @ [new]
      | Some _ \<Rightarrow> map (\<lambda>it. if hasKey k it then new else it) t)"

section \<open>Daily exporter\<close>

text \<open>
  The lambda that starts at line 308 of \<open>src/lambdas/webhook-handler.js\<close>: it scans the
  table for approved records that are not exported, writes them as one file of
  fixed-width lines, and marks them.

  What the exporter reads from outside: whether a call to DynamoDB or S3 rejects, how
  far the first page of a scan reaches, and the clock. \<open>toISOString s\<close> is
  \<open>new Date(s).toISOString()\<close>, \<open>None\<close> where the date is invalid and the call throws a
  \<open>RangeError\<close>.

  DynamoDB answers a \<open>Scan\<close> page by page: it reads items until they amount to 1 MB,
  applies the filter expression to what it has read, and returns the matches as \<open>Items\<close>
  together with a \<open>LastEvaluatedKey\<close> when items remain. \<open>scanPage env t\<close> is the number of
  items of the table \<open>t\<close> that the first page reads; the table lists its items in the
  order of the scan.
\<close>

record export_env =
  scanError :: "exn option"
  scanPage :: "table \<Rightarrow> nat"
  toISOString :: "string \<Rightarrow> string option"
  fileDate :: string
  uploadError :: "exn option"
  updateError :: "string \<Rightarrow> exn option"
  exportedAtOf :: "string \<Rightarrow> string"
  elapsed :: string
  finishedAt :: string

text \<open>The durable state: the table and the export bucket (file name to content).\<close>

record world =
  submissions :: table
  exportBucket :: "string \<rightharpoonup> string"

definition isApprovedUnexported :: "item \<Rightarrow> bool" where
  "isApprovedUnexported it =
     (it ''status'' = Some (S ''approved'') \<and> it ''exported'' = Some (BOOL False))"

text \<open>
  The scan with its filter expression. The function sends one \<open>ScanCommand\<close> and returns
  \<open>result.Items\<close>: the matches among the items of the first page. It does not look at
  \<open>LastEvaluatedKey\<close> and sends no second command.
\<close>

definition getApprovedRecords :: "export_env \<Rightarrow> table \<Rightarrow> exn + item list" where
  "getApprovedRecords env t =
     (case scanError env of
        Some e \<Rightarrow> Inl e
      | None \<Rightarrow> Inr (filter isApprovedUnexported (take (scanPage env t) t)))"

text \<open>\<open>record.name?.S || ''\<close>\<close>

definition attrS :: "item \<Rightarrow> string \<Rightarrow> string" where
  "attrS r a = (case r a of Some (S s) \<Rightarrow> s | _ \<Rightarrow> [])"

text \<open>\<open>isoText.slice(0, 10).replace(/-/g, '')\<close>\<close>

definition ymd :: "string \<Rightarrow> string" where
  "ymd isoText = filter (\<lambda>c. c \<noteq> CHR ''-'') (take 10 isoText)"

text \<open>The fields of a record, one after the other, before the length is checked.\<close>

definition fixedWidthFields :: "string \<Rightarrow> string \<Rightarrow> string \<Rightarrow> string" where
  "fixedWidthFields customerNumber email formattedDate =
     padStart 2 CHR '' '' ''2''
     @ padStart 25 CHR '' '' customerNumber
     @ ''    ''
     @ padStart 35 CHR '' '' ''1234567890123456789012345''
     @ replicate 126 CHR '' ''
     @ padEnd 255 CHR '' '' (''AR_40_DDI_'' @ formattedDate @ '' ##'' @ email @ ''## '')
     @ replicate 82 CHR '' ''
     @ ''DD''
     @ replicate 28 CHR '' ''
     @ ''W''
     @ replicate 46 CHR '' ''"

definition recordToFixedWidth :: "(string \<Rightarrow> string option) \<Rightarrow> item \<Rightarrow> exn + string" where
  "recordToFixedWidth toISO r =
     (let customerNumber = attrS r ''customerNumber'';
          email = attrS r ''email'';
          submissionDate = attrS r ''submissionDate''
      in case toISO submissionDate of
           None \<Rightarrow> Inl (RangeError ''Invalid time value'')
         | Some isoText \<Rightarrow>
             (let fixedWidthRecord = fixedWidthFields customerNumber email (ymd isoText)
              in Inr (if length fixedWidthRecord \<noteq> 606
                      then padEnd 606 CHR '' '' (take 606 fixedWidthRecord)
                      else fixedWidthRecord)))"

text \<open>\<open>record.submissionId.S\<close>; an item of the table always has its key.\<close>

definition submissionIdOf :: "item \<Rightarrow> exn + string" where
  "submissionIdOf r =
     (case keyOf r of
        Some k \<Rightarrow> Inr k
      | None \<Rightarrow> Inl (TypeError ''Cannot read properties of undefined (reading 'S')''))"

definition markExported :: "string \<Rightarrow> item \<Rightarrow> item" where
  "markExported at it = it(''exported'' \<mapsto> BOOL True, ''exportedAt'' \<mapsto> S at)"

text \<open>
  One update per id, all sent before any is awaited: the updates that succeed are
  applied, and \<open>Promise.all\<close> rejects if one of them fails.
\<close>

definition markRecordsAsExported ::
  "export_env \<Rightarrow> table \<Rightarrow> string list \<Rightarrow> exn option \<times> table" where
  "markRecordsAsExported env t ids =
     (let t' = fold (\<lambda>k acc. if updateError env k = None
                              then updateItem acc k (markExported (exportedAtOf env k))
                              else acc) ids t
      in (case find (\<lambda>k. updateError env k \<noteq> None) ids of
            None \<Rightarrow> (None, t')
          | Some k \<Rightarrow> (updateError env k, t')))"

definition uploadExportFile ::
  "export_env \<Rightarrow> (string \<rightharpoonup> string) \<Rightarrow> string \<Rightarrow> string \<Rightarrow> exn + (string \<rightharpoonup> string)" where
  "uploadExportFile env b fileName fileContent =
     (case uploadError env of
        Some e \<Rightarrow> Inl e
      | None \<Rightarrow> Inr (b(fileName \<mapsto> fileContent)))"

definition exportFailed :: "export_env \<Rightarrow> exn \<Rightarrow> response" where
  "exportFailed env e =
     \<lparr>statusCode = 500, headers = [],
      body = jsonStringify (JObj [(''success'', JBool False), (''error'', JStr (message e)),
                                  (''timestamp'', JStr (finishedAt env))])\<rparr>"

definition handler_export :: "export_env \<Rightarrow> world \<Rightarrow> response \<times> world" where
  "handler_export env w =
     (case getApprovedRecords env (submissions w) of
        Inl e \<Rightarrow> (exportFailed env e, w)
      | Inr records \<Rightarrow>
          if length records = 0
          then (\<lparr>statusCode = 200, headers = [],
                 body = jsonStringify (JObj [(''success'', JBool True),
                                             (''recordsExported'', JNum ''0''),
                                             (''message'', JStr ''No records to export'')])\<rparr>, w)
          else
            (case mapE (recordToFixedWidth (toISOString env)) records of
               Inl e \<Rightarrow> (exportFailed env e, w)
             | Inr fixedWidthLines \<Rightarrow>
                 (let fileContent = joinWith [CHR 0x0A] fixedWidthLines;
                      fileName = ''DIRECT_DEBIT_EXPORT_'' @ ymd (fileDate env) @ ''.txt''
                  in case uploadExportFile env (exportBucket w) fileName fileContent of
                       Inl e \<Rightarrow> (exportFailed env e, w)
                     | Inr b \<Rightarrow>
                         (let w1 = w\<lparr>exportBucket := b\<rparr>
                          in case mapE submissionIdOf records of
                               Inl e \<Rightarrow> (exportFailed env e, w1)
                             | Inr submissionIds \<Rightarrow>
                                 (case markRecordsAsExported env (submissions w1) submissionIds of
                                    (Some e, t) \<Rightarrow> (exportFailed env e, w1\<lparr>submissions := t\<rparr>)
                                  | (None, t) \<Rightarrow>
                                      (\<lparr>statusCode = 200, headers = [],
                                        body = jsonStringify (JObj
                                          [(''success'', JBool True),
                                           (''recordsExported'', JNum (showNat (length records))),
                                           (''fileName'', JStr fileName),
                                           (''fileSize'', JNum (showNat (length fileContent))),
                                           (''duration'', JStr (elapsed env @ '' seconds'')),
                                           (''timestamp'', JStr (finishedAt env))])\<rparr>,
                                       w1\<lparr>submissions := t\<rparr>))))))"

section \<open>Webhook handler\<close>

text \<open>
  The lambda of the first 167 lines of \<open>src/lambdas/webhook-handler.js\<close>: it receives the
  callback of the verification service and writes the outcome to the submission.

  What the webhook handler reads from outside. \<open>JSON_parse b\<close> is \<open>JSON.parse(b)\<close>, \<open>None\<close>
  where it throws a \<open>SyntaxError\<close>; the other fields say whether a call to DynamoDB
  rejects, what the client throws for a key that is not a string, and the clock.
\<close>

record webhook_env = platform +
  JSON_parse :: "string \<Rightarrow> json option"
  getError :: "exn option"
  badKeyError :: exn
  updateStatusError :: "exn option"
  updatedAtNow :: string

definition getCorsHeaders_webhook :: "string option \<Rightarrow> (string \<times> string) list" where
  "getCorsHeaders_webhook orig =
     [(''Access-Control-Allow-Origin'',
         (case orig of
            Some s \<Rightarrow> if s \<in> set [''https://verification.thirdparty.com''] then s else ''null''
          | None \<Rightarrow> ''null'')),
      (''Access-Control-Allow-Methods'', ''POST, OPTIONS''),
      (''Access-Control-Allow-Headers'', ''Content-Type, X-Requested-With''),
      (''Content-Type'', ''application/json'')]"

definition updateSubmissionStatus ::
  "webhook_env \<Rightarrow> table \<Rightarrow> string \<Rightarrow> string \<Rightarrow> json \<Rightarrow> exn + table" where
  "updateSubmissionStatus env t submissionId status webhookData =
     (case updateStatusError env of
        Some e \<Rightarrow> Inl e
      | None \<Rightarrow>
          Inr (updateItem t submissionId
                 (\<lambda>it. it(''status'' \<mapsto> S status,
                           ''webhookData'' \<mapsto> S (jsonStringify webhookData),
                           ''updatedAt'' \<mapsto> S (updatedAtNow env)))))"

definition getSubmission :: "webhook_env \<Rightarrow> table \<Rightarrow> string \<Rightarrow> exn + item option" where
  "getSubmission env t submissionId =
     (case getError env of
        Some e \<Rightarrow> Inl e
      | None \<Rightarrow> Inr (getItem t submissionId))"

text \<open>The payload: JSON first, and the form encoding where that fails.\<close>

definition parseWebhookBody :: "webhook_env \<Rightarrow> string \<Rightarrow> json" where
  "parseWebhookBody env b =
     (case JSON_parse env b of
        Some v \<Rightarrow> v
      | None \<Rightarrow> fromEntries (urlSearchParams env b))"

definition webhookError :: "(string \<times> string) list \<Rightarrow> nat \<Rightarrow> string \<Rightarrow> response" where
  "webhookError corsHeaders code msg =
     \<lparr>statusCode = code, headers = corsHeaders,
      body = jsonStringify (JObj [(''error'', JStr msg)])\<rparr>"

text \<open>
  The body of the handler's \<open>try\<close>: \<open>Inl\<close> is an exception on its way to the \<open>catch\<close>. The
  correlation token is the key of the reads and writes, which the client accepts only
  as a string.
\<close>

definition handler_webhook_try ::
  "webhook_env \<Rightarrow> event \<Rightarrow> table \<Rightarrow> exn + response \<times> table" where
  "handler_webhook_try env ev t =
     (let corsHeaders = getCorsHeaders_webhook (origin ev);
          invalid = Inr (webhookError corsHeaders 400 ''Invalid request method or missing body'', t);
          missing = Inr (webhookError corsHeaders 400 ''Missing CustomData field'', t)
      in case requestBody ev of
           None \<Rightarrow> invalid
         | Some b \<Rightarrow>
             if \<not> (httpMethod ev = ''POST'' \<and> b \<noteq> []) then invalid
             else
               (let webhookData = parseWebhookBody env b
                in case getProp webhookData ''CustomData'' of
                     Inl e \<Rightarrow> Inl e
                   | Inr None \<Rightarrow> missing
                   | Inr (Some submissionId) \<Rightarrow>
                       if \<not> truthy submissionId then missing
                       else
                         (case submissionId of
                            JStr k \<Rightarrow>
                              (case getSubmission env t k of
                                 Inl e \<Rightarrow> Inl e
                               | Inr None \<Rightarrow>
                                   Inr (webhookError corsHeaders 404 ''Submission not found'', t)
                               | Inr (Some existingSubmission) \<Rightarrow>
                                   (case getProp webhookData ''VerificationStatus'' of
                                      Inl e \<Rightarrow> Inl e
                                    | Inr v \<Rightarrow>
                                        (let status =
                                               (if v = Some (JStr ''True'') \<or> v = Some (JBool True)
                                                then ''approved'' else ''failed'')
                                         in case updateSubmissionStatus env t k status webhookData of
                                              Inl e \<Rightarrow> Inl e
                                            | Inr t' \<Rightarrow>
                                                Inr (\<lparr>statusCode = 200, headers = corsHeaders,
                                                      body = jsonStringify (JObj
                                                        [(''success'', JBool True),
                                                         (''submissionId'', JStr k),
                                                         (''status'', JStr status),
                                                         (''message'', JStr (''Submission '' @ k
                                                            @ '' updated with status: '' @ status))])\<rparr>,
                                                     t'))))
                          | _ \<Rightarrow> Inl (badKeyError env))))"

definition handler_webhook :: "webhook_env \<Rightarrow> event \<Rightarrow> table \<Rightarrow> response \<times> table" where
  "handler_webhook env ev t =
     (if httpMethod ev = ''OPTIONS''
      then (\<lparr>statusCode = 200, headers = getCorsHeaders_webhook (origin ev), body = []\<rparr>, t)
      else case handler_webhook_try env ev t of
             Inr result \<Rightarrow> result
           | Inl e \<Rightarrow>
               (\<lparr>statusCode = 500, headers = getCorsHeaders_webhook (origin ev),
                 body = jsonStringify (JObj [(''error'', JStr ''Internal server error''),
                                             (''message'', JStr (message e))])\<rparr>, t))"

section \<open>Form processor\<close>

text \<open>
  The lambda of \<open>src/unnamed/part_000\<close>: it validates a submission, stores it as pending and
  answers with the address of the verification form, the customer's data encrypted in its
  query.
\<close>

subsection \<open>Strings\<close>

text \<open>The class \<open>\s\<close> of a regular expression, on code units below 256.\<close>

definition isWhitespace :: "char \<Rightarrow> bool" where
  "isWhitespace c = ((of_char c :: nat) \<in> {9, 10, 11, 12, 13, 32, 160})"

definition isUpperAZ :: "char \<Rightarrow> bool" where
  "isUpperAZ c = (65 \<le> (of_char c :: nat) \<and> (of_char c :: nat) \<le> 90)"

text \<open>
  \<open>String.prototype.toUpperCase\<close>. The sharp s becomes \<open>SS\<close>. The upper-case forms of the
  code units 181 and 255 lie above 255 and are not letters \<open>A\<close> to \<open>Z\<close>; the model leaves
  the two as they are, which the one caller cannot tell apart, since it goes on to erase
  every character outside \<open>[A-Z0-9\s]\<close>.
\<close>

definition upperChar :: "char \<Rightarrow> string" where
  "upperChar c =
     (let n = (of_char c :: nat)
      in if 97 \<le> n \<and> n \<le> 122 then [char_of (n - 32)]
         else if n = 223 then ''SS''
         else if 224 \<le> n \<and> n \<le> 254 \<and> n \<noteq> 247 then [char_of (n - 32)]
         else [c])"

definition toUpperCase :: "string \<Rightarrow> string" where
  "toUpperCase s = concat (map upperChar s)"

text \<open>\<open>a || b\<close> on strings that may be \<open>null\<close>: the empty string is falsy.\<close>

definition orElse :: "string option \<Rightarrow> string option \<Rightarrow> string option" where
  "orElse a b = (case a of Some s \<Rightarrow> if s \<noteq> [] then Some s else b | None \<Rightarrow> b)"

definition hexUpper :: "nat \<Rightarrow> char" where
  "hexUpper n = ''0123456789ABCDEF'' ! (n mod 16)"

definition percentByte :: "nat \<Rightarrow> string" where
  "percentByte n = [CHR ''%'', hexUpper (n div 16), hexUpper n]"

definition isUnreserved :: "char \<Rightarrow> bool" where
  "isUnreserved c =
     (let n = (of_char c :: nat)
      in (65 \<le> n \<and> n \<le> 90) \<or> (97 \<le> n \<and> n \<le> 122) \<or> (48 \<le> n \<and> n \<le> 57)
         \<or> c \<in> set ''-_.!~*()'' \<or> n = 39)"

text \<open>\<open>encodeURIComponent\<close>: the UTF-8 bytes of every other character, in upper-case hex.\<close>

definition encodeURIComponent :: "string \<Rightarrow> string" where
  "encodeURIComponent s =
     concat (map (\<lambda>c. let n = (of_char c :: nat)
                      in if isUnreserved c then [c]
                         else if n < 128 then percentByte n
                         else percentByte (192 + n div 64) @ percentByte (128 + n mod 64)) s)"

subsection \<open>Validation\<close>

text \<open>\<open>/^(1000|2000)\d{7}$/.test(s)\<close>\<close>

definition customerNumberFormat :: "string \<Rightarrow> bool" where
  "customerNumberFormat s =
     (length s = 11 \<and> (take 4 s = ''1000'' \<or> take 4 s = ''2000'') \<and> list_all isDigit (drop 4 s))"

text \<open>
  \<open>/^[^\s@]+@[^\s@]+\.[^\s@]+$/.test(s)\<close>: an \<open>@\<close> at some place \<open>i\<close> and a dot at some
  later place \<open>j\<close>, with one character or more before, between and after, none of them
  a whitespace or an \<open>@\<close>.
\<close>

definition okEmailChar :: "char \<Rightarrow> bool" where
  "okEmailChar c = (\<not> isWhitespace c \<and> c \<noteq> CHR ''@'')"

definition emailRegexTest :: "string \<Rightarrow> bool" where
  "emailRegexTest s =
     list_ex (\<lambda>i. list_ex (\<lambda>j.
         0 < i \<and> i + 1 < j \<and> j + 1 < length s \<and> s ! i = CHR ''@'' \<and> s ! j = CHR ''.''
         \<and> list_all okEmailChar (take i s)
         \<and> list_all okEmailChar (take (j - (i + 1)) (drop (i + 1) s))
         \<and> list_all okEmailChar (drop (j + 1) s))
       [0..<length s]) [0..<length s]"

definition validateAndSanitizeInput ::
  "string \<Rightarrow> string \<Rightarrow> string \<Rightarrow> exn + string \<times> string \<times> string" where
  "validateAndSanitizeInput customerNumber postcode email =
     (let sanitizedCustomerNumber = filter isDigit customerNumber
      in if \<not> customerNumberFormat sanitizedCustomerNumber
         then Inl (Error ''Invalid customer number format'')
         else
           (let sanitizedPostcode =
                  take 10 (filter (\<lambda>c. isUpperAZ c \<or> isDigit c \<or> isWhitespace c) postcode)
            in if length sanitizedPostcode < 5
               then Inl (Error ''Invalid postcode format'')
               else if \<not> emailRegexTest email
               then Inl (Error ''Invalid email format'')
               else Inr (sanitizedCustomerNumber, sanitizedPostcode, email)))"

text \<open>
  The function of the same name in the customer validator (lines 194 to 208 of
  \<open>src/lambdas/webhook-handler.js\<close>), which answers the form before it is submitted: the
  same sanitising, with the postcode measured without its whitespace.
\<close>

definition validateAndSanitizeInput_validator :: "string \<Rightarrow> string \<Rightarrow> exn + string \<times> string" where
  "validateAndSanitizeInput_validator customerNumber postcode =
     (let sanitizedCustomerNumber = filter isDigit customerNumber
      in if \<not> customerNumberFormat sanitizedCustomerNumber
         then Inl (Error ''Invalid customer number format'')
         else
           (let sanitizedPostcode =
                  take 10 (filter (\<lambda>c. isUpperAZ c \<or> isDigit c \<or> isWhitespace c) postcode)
            in if length (filter (\<lambda>c. \<not> isWhitespace c) sanitizedPostcode) < 5
               then Inl (Error ''Invalid postcode format'')
               else Inr (sanitizedCustomerNumber, sanitizedPostcode)))"

definition determineServiceFromCustomerNumber :: "string \<Rightarrow> exn + string" where
  "determineServiceFromCustomerNumber customerNumber =
     (if take 4 customerNumber = ''1000'' then Inr ''council-a''
      else if take 4 customerNumber = ''2000'' then Inr ''council-b''
      else Inl (Error (''Invalid customer number prefix: '' @ customerNumber
             @ ''. Must start with 1000 (Council A) or 2000 (Council B)'')))"

subsection \<open>Encryption\<close>

type_synonym byte = "8 word"

text \<open>
  What the form processor reads from outside: the parameter store, the generator of
  identifiers, the clock, whether the write to DynamoDB rejects, the \<open>CALLBACK_URL\<close>
  variable, and the primitives of \<open>crypto\<close>: the SHA-256 digest of a byte string, the AES
  encryption of one block of 16 bytes under a key, and the 16 random bytes of the call.
\<close>

record handoff_env = platform +
  getParameter :: "string \<Rightarrow> exn + string"
  randomUUID :: string
  submissionDateNow :: string
  putError :: "exn option"
  callbackURLVar :: "string option"
  sha256 :: "byte list \<Rightarrow> byte list"
  aes256 :: "byte list \<Rightarrow> byte list \<Rightarrow> byte list"
  randomBytes16 :: "byte list"

text \<open>
  A string as \<open>crypto\<close> receives it: any sequence of UTF-16 code units. \<open>codeUnits\<close> gives
  the code units of a string of the handler, which are all below 256.
\<close>

type_synonym jsString = "16 word list"

definition codeUnits :: "string \<Rightarrow> jsString" where
  "codeUnits s = map of_char s"

definition isHighSurrogate :: "16 word \<Rightarrow> bool" where
  "isHighSurrogate u = (0xD800 \<le> unat u \<and> unat u < 0xDC00)"

definition isLowSurrogate :: "16 word \<Rightarrow> bool" where
  "isLowSurrogate u = (0xDC00 \<le> unat u \<and> unat u < 0xE000)"

text \<open>
  The code points that \<open>cipher.update(queryString, 'utf8')\<close> and \<open>sha256.update(sharedSecret)\<close>
  encode: a high surrogate followed by a low surrogate is one code point above
  \<open>U+FFFF\<close>, a surrogate that is not part of such a pair is replaced by \<open>U+FFFD\<close>, and every
  other code unit is its own code point.
\<close>

fun codePoints :: "jsString \<Rightarrow> nat list" where
  "codePoints [] = []"
| "codePoints [u] = [if isHighSurrogate u \<or> isLowSurrogate u then 0xFFFD else unat u]"
| "codePoints (u # v # us) =
     (if isHighSurrogate u \<and> isLowSurrogate v
      then (0x10000 + (unat u - 0xD800) * 0x400 + (unat v - 0xDC00)) # codePoints us
      else (if isHighSurrogate u \<or> isLowSurrogate u then 0xFFFD else unat u)
           # codePoints (v # us))"

text \<open>The UTF-8 bytes of a code point: one to four.\<close>

definition encodeCodePoint :: "nat \<Rightarrow> byte list" where
  "encodeCodePoint c =
     (if c < 0x80 then [of_nat c]
      else if c < 0x800 then [of_nat (0xC0 + c div 64), of_nat (0x80 + c mod 64)]
      else if c < 0x10000
      then [of_nat (0xE0 + c div 4096), of_nat (0x80 + c div 64 mod 64), of_nat (0x80 + c mod 64)]
      else [of_nat (0xF0 + c div 262144), of_nat (0x80 + c div 4096 mod 64),
            of_nat (0x80 + c div 64 mod 64), of_nat (0x80 + c mod 64)])"

definition utf8Encode :: "jsString \<Rightarrow> byte list" where
  "utf8Encode s = concat (map encodeCodePoint (codePoints s))"

text \<open>The padding of a block cipher of \<open>crypto\<close> (PKCS#7): one to sixteen bytes.\<close>

definition pkcs7Pad :: "byte list \<Rightarrow> byte list" where
  "pkcs7Pad bs = (let n = 16 - length bs mod 16 in bs @ replicate n (of_nat n))"

fun chunk16 :: "byte list \<Rightarrow> byte list list" where
  "chunk16 [] = []"
| "chunk16 (b # bs) = take 16 (b # bs) # chunk16 (drop 15 bs)"

definition xorBytes :: "byte list \<Rightarrow> byte list \<Rightarrow> byte list" where
  "xorBytes xs ys = map (\<lambda>(x, y). x XOR y) (zip xs ys)"

text \<open>Cipher block chaining: each block is combined with the block before it.\<close>

fun cbcEncrypt :: "(byte list \<Rightarrow> byte list) \<Rightarrow> byte list \<Rightarrow> byte list list \<Rightarrow> byte list list" where
  "cbcEncrypt E prev [] = []"
| "cbcEncrypt E prev (p # ps) = (let c = E (xorBytes p prev) in c # cbcEncrypt E c ps)"

definition base64Char :: "nat \<Rightarrow> char" where
  "base64Char i =
     (if i < 26 then char_of (65 + i)
      else if i < 52 then char_of (71 + i)
      else if i < 62 then char_of (i - 4)
      else if i = 62 then CHR ''+'' else CHR ''/'')"

text \<open>\<open>buf.toString('base64')\<close>: three bytes to four characters, padded with \<open>=\<close>.\<close>

fun base64Encode :: "byte list \<Rightarrow> string" where
  "base64Encode [] = []"
| "base64Encode [a] =
     [base64Char (unat a div 4), base64Char (unat a mod 4 * 16), CHR ''='', CHR ''='']"
| "base64Encode [a, b] =
     [base64Char (unat a div 4), base64Char (unat a mod 4 * 16 + unat b div 16),
      base64Char (unat b mod 16 * 4), CHR ''='']"
| "base64Encode (a # b # c # rest) =
     [base64Char (unat a div 4), base64Char (unat a mod 4 * 16 + unat b div 16),
      base64Char (unat b mod 16 * 4 + unat c div 64), base64Char (unat c mod 64)]
     @ base64Encode rest"

text \<open>
  \<open>createCipheriv\<close> refuses a key that is not 32 bytes and an initialization vector that
  is not 16 bytes; nothing else in the function throws.
\<close>

definition encryptQueryString :: "handoff_env \<Rightarrow> jsString \<Rightarrow> jsString \<Rightarrow> exn + string" where
  "encryptQueryString env queryString sharedSecret =
     (let aesKey = sha256 env (utf8Encode sharedSecret);
          iv = randomBytes16 env
      in if length aesKey \<noteq> 32 then Inl (RangeError ''Invalid key length'')
         else if length iv \<noteq> 16 then Inl (TypeError ''Invalid initialization vector'')
         else
           (let cipherText = cbcEncrypt (aes256 env aesKey) iv
                               (chunk16 (pkcs7Pad (utf8Encode queryString)))
            in Inr (base64Encode (iv @ concat cipherText))))"

subsection \<open>The handler\<close>

definition getCorsHeaders_form :: "string option \<Rightarrow> (string \<times> string) list" where
  "getCorsHeaders_form orig =
     [(''Access-Control-Allow-Origin'',
         (case orig of
            Some s \<Rightarrow> if s \<in> set [''https://forms.council-a.gov.uk'',
                                   ''https://forms.council-b.gov.uk'',
                                   ''https://s3.eu-west-2.amazonaws.com''] then s else ''null''
          | None \<Rightarrow> ''null'')),
      (''Access-Control-Allow-Methods'', ''GET, POST, OPTIONS''),
      (''Access-Control-Allow-Headers'', ''Content-Type, X-Requested-With''),
      (''Content-Type'', ''application/json'')]"

text \<open>
  \<open>parameters.get\<close>: the parameters of the body of a POST, or else of the query string.
\<close>

definition requestParameters :: "handoff_env \<Rightarrow> event \<Rightarrow> string \<rightharpoonup> string" where
  "requestParameters env ev =
     (case requestBody ev of
        Some b \<Rightarrow>
          if httpMethod ev = ''POST'' \<and> b \<noteq> [] then map_of (urlSearchParams env b)
          else queryStringParameters ev
      | None \<Rightarrow> queryStringParameters ev)"

definition storeSubmissionData ::
  "handoff_env \<Rightarrow> table \<Rightarrow> string \<Rightarrow> string \<Rightarrow> string \<Rightarrow> string \<Rightarrow> string \<Rightarrow> string \<Rightarrow> string
     \<Rightarrow> exn + table" where
  "storeSubmissionData env t submissionId customerNumber postcode email formType service
     submissionDate =
     (case putError env of
        Some e \<Rightarrow> Inl e
      | None \<Rightarrow>
          Inr (putItem t submissionId
                 [''submissionId'' \<mapsto> S submissionId,
                  ''customerNumber'' \<mapsto> S customerNumber,
                  ''postcode'' \<mapsto> S postcode,
                  ''email'' \<mapsto> S email,
                  ''formType'' \<mapsto> S formType,
                  ''service'' \<mapsto> S service,
                  ''submissionDate'' \<mapsto> S submissionDate,
                  ''status'' \<mapsto> S ''pending'',
                  ''exported'' \<mapsto> BOOL False]))"

text \<open>
  The base URL and the query string to encrypt, by form type and service (the four
  branches of the handler).
\<close>

definition formTarget :: "string option \<Rightarrow> string \<Rightarrow> string \<Rightarrow> string \<Rightarrow> string \<times> string" where
  "formTarget formType service customerNumber baseCustomerData =
     (if formType = Some ''user'' then
        (if service = ''council-a''
         then (''https://verification.thirdparty.com/forms/council-a/customer'',
               baseCustomerData @ ''&DdPlanReference='' @ customerNumber
                 @ ''&showddplanreference=visible&showdob=hidden&showmobile=hidden'')
         else (''https://verification.thirdparty.com/forms/council-b/customer'',
               baseCustomerData @ ''&DdPlanReference='' @ customerNumber
                 @ ''&showddplanreference=visible&showdob=hidden&showmobile=hidden''))
      else
        (if service = ''council-a''
         then (''https://verification.thirdparty.com/forms/council-a/agent'',
               baseCustomerData @ ''&DdPlanReference='' @ customerNumber
                 @ ''&showddplanfields=hidden&applyingascompany=false&showapplyingascompanycheck=hidden&showdob=hidden&showmobile=hidden'')
         else (''https://verification.thirdparty.com/forms/council-b/agent'',
               baseCustomerData @ ''&DdPlanReference='' @ customerNumber
                 @ ''&showddplanfields=hidden&applyingascompany=false&showapplyingascompanycheck=hidden&showdob=hidden&showmobile=hidden'')))"

text \<open>\<open>serviceMapping[service]\<close>, as it is spliced into the parameter path.\<close>

definition serviceMapping :: "string \<Rightarrow> string" where
  "serviceMapping service =
     (if service = ''council-a'' then ''council-a''
      else if service = ''council-b'' then ''council-b''
      else ''undefined'')"

text \<open>
  The body of the handler's \<open>try\<close>, on the parameters of the request. \<open>Inl\<close> is an
  exception on its way to the \<open>catch\<close>, with the table as it is then.
\<close>

definition handler_form_try ::
  "handoff_env \<Rightarrow> (string \<times> string) list \<Rightarrow> (string \<rightharpoonup> string) \<Rightarrow> table
     \<Rightarrow> (exn + response) \<times> table" where
  "handler_form_try env corsHeaders parameters t =
     (let rawCustomerNumber = orElse (parameters ''customer-number'') (parameters ''customer_number'');
          rawPostcode = parameters ''postcode'';
          rawEmail = parameters ''email'';
          formType = parameters ''form_type'';
          requestedService = parameters ''service''
      in case (orElse rawCustomerNumber None, orElse rawPostcode None, orElse rawEmail None) of
           (Some rcn, Some rpc, Some rml) \<Rightarrow>
             (case validateAndSanitizeInput rcn (toUpperCase rpc) rml of
                Inl e \<Rightarrow> (Inl e, t)
              | Inr (customerNumber, postcode, email) \<Rightarrow>
                  (case determineServiceFromCustomerNumber customerNumber of
                     Inl e \<Rightarrow> (Inl e, t)
                   | Inr determinedService \<Rightarrow>
                       if orElse requestedService None \<noteq> None
                          \<and> requestedService \<noteq> Some determinedService
                       then (Inr \<lparr>statusCode = 400, headers = corsHeaders,
                                  body = jsonStringify (JObj [(''error'', JStr
                                    (''Service mismatch: Customer number '' @ customerNumber
                                     @ '' requires '' @ [CHR 0x27] @ determinedService @ [CHR 0x27]
                                     @ '' service, but '' @ [CHR 0x27]
                                     @ (case requestedService of Some s \<Rightarrow> s | None \<Rightarrow> [])
                                     @ [CHR 0x27] @ '' was requested.''))])\<rparr>, t)
                       else
                         (let service = determinedService;
                              organization = serviceMapping service;
                              parameterPath = ''/forms/'' @ organization @ ''/test/ThirdPartySharedSecret''
                          in case getParameter env parameterPath of
                               Inl e \<Rightarrow> (Inl e, t)
                             | Inr sharedSecret \<Rightarrow>
                                 (let submissionId = randomUUID env;
                                      submissionDate = submissionDateNow env;
                                      storedFormType = (case orElse formType None of
                                                          Some f \<Rightarrow> f | None \<Rightarrow> ''advisor'')
                                  in case storeSubmissionData env t submissionId customerNumber
                                            postcode email storedFormType service submissionDate of
                                       Inl e \<Rightarrow> (Inl e, t)
                                     | Inr t' \<Rightarrow>
                                         (let callbackURL =
                                                (case orElse (callbackURLVar env) None of
                                                   Some u \<Rightarrow> u
                                                 | None \<Rightarrow> ''https://api.example.com/webhook-callback'');
                                              baseCustomerData =
                                                ''customer_number='' @ customerNumber
                                                @ ''&postcode='' @ postcode
                                                @ ''&CurrentPostcode='' @ postcode
                                                @ ''&Email='' @ email
                                                @ ''&EmailRetype='' @ email
                                                @ ''&CustomData='' @ submissionId
                                                @ ''&CallbackURL='' @ callbackURL;
                                              target = formTarget formType service customerNumber
                                                         baseCustomerData;
                                              baseUrl = fst target;
                                              completeQueryString = snd target
                                          in case encryptQueryString env
                                                    (codeUnits completeQueryString)
                                                    (codeUnits sharedSecret) of
                                               Inl e \<Rightarrow> (Inl e, t')
                                             | Inr encrypted \<Rightarrow>
                                                 (Inr \<lparr>statusCode = 200, headers = corsHeaders,
                                                        body = jsonStringify (JObj
                                                          [(''success'', JBool True),
                                                           (''submissionId'', JStr submissionId),
                                                           (''encryptedData'', JStr encrypted),
                                                           (''redirectUrl'', JStr (baseUrl @ ''?eData=''
                                                              @ encodeURIComponent encrypted)),
                                                           (''formType'', JStr storedFormType),
                                                           (''service'', JStr service)])\<rparr>,
                                                  t'))))))
         | _ \<Rightarrow>
             (Inr \<lparr>statusCode = 400, headers = corsHeaders,
                    body = jsonStringify (JObj [(''error'', JStr
                      ''Missing required parameters: customer-number, postcode, and email'')])\<rparr>, t))"

definition handler_form :: "handoff_env \<Rightarrow> event \<Rightarrow> table \<Rightarrow> response \<times> table" where
  "handler_form env ev t =
     (let corsHeaders = getCorsHeaders_form (origin ev)
      in if httpMethod ev = ''OPTIONS''
         then (\<lparr>statusCode = 200, headers = corsHeaders, body = []\<rparr>, t)
         else case handler_form_try env corsHeaders (requestParameters env ev) t of
                (Inr r, t') \<Rightarrow> (r, t')
              | (Inl e, t') \<Rightarrow>
                  (\<lparr>statusCode = 500, headers = corsHeaders,
                    body = jsonStringify (JObj [(''error'', JStr ''Internal server error''),
                                                (''message'', JStr (message e))])\<rparr>, t'))"

subsection \<open>The receiving side of the encryption\<close>










text \<open>
  A string is well formed when every surrogate in it is half of a pair
  (\<open>String.prototype.isWellFormed\<close>); \<open>toWellFormed\<close> is the string with \<open>U+FFFD\<close> in the
  place of each surrogate that is not (\<open>String.prototype.toWellFormed\<close>).
\<close>

fun isWellFormed :: "jsString \<Rightarrow> bool" where
  "isWellFormed [] = True"
| "isWellFormed [u] = (\<not> isHighSurrogate u \<and> \<not> isLowSurrogate u)"
| "isWellFormed (u # v # us) =
     (if isHighSurrogate u then isLowSurrogate v \<and> isWellFormed us
      else \<not> isLowSurrogate u \<and> isWellFormed (v # us))"




subsection \<open>A sample table and environment\<close>

definition sampleTable :: table where
  "sampleTable =
     [[''submissionId'' \<mapsto> S ''s1'', ''customerNumber'' \<mapsto> S ''10001234567'',
       ''email'' \<mapsto> S ''a@b.com'', ''submissionDate'' \<mapsto> S ''2024-01-15T10:30:00.000Z'',
       ''status'' \<mapsto> S ''approved'', ''exported'' \<mapsto> BOOL False],
      [''submissionId'' \<mapsto> S ''s2'', ''customerNumber'' \<mapsto> S ''20007654321'',
       ''email'' \<mapsto> S ''c@d.org'', ''submissionDate'' \<mapsto> S ''2024-01-15T11:00:00.000Z'',
       ''status'' \<mapsto> S ''failed'', ''exported'' \<mapsto> BOOL False],
      [''submissionId'' \<mapsto> S ''s3'', ''customerNumber'' \<mapsto> S ''10000000001'',
       ''email'' \<mapsto> S ''e@f.net'', ''submissionDate'' \<mapsto> S ''2024-01-14T09:00:00.000Z'',
       ''status'' \<mapsto> S ''approved'', ''exported'' \<mapsto> BOOL True],
      [''submissionId'' \<mapsto> S ''s4'', ''customerNumber'' \<mapsto> S ''20000000002'',
       ''email'' \<mapsto> S ''g@h.uk'', ''submissionDate'' \<mapsto> S ''2024-01-15T11:45:00.000Z'',
       ''status'' \<mapsto> S ''pending'', ''exported'' \<mapsto> BOOL False]]"

definition sampleWorld :: world where
  "sampleWorld = \<lparr>submissions = sampleTable, exportBucket = Map.empty\<rparr>"

text \<open>
  A run in which every call succeeds and the scan reads the whole table in its first
  page; an empty date string is an invalid date.
\<close>

definition sampleExportEnv :: export_env where
  "sampleExportEnv =
     \<lparr>scanError = None,
      scanPage = length,
      toISOString = (\<lambda>s. if s = [] then None else Some s),
      fileDate = ''2024-01-16T02:00:00.000Z'',
      uploadError = None,
      updateError = (\<lambda>k. None),
      exportedAtOf = (\<lambda>k. ''2024-01-16T02:00:01.000Z''),
      elapsed = ''1.2'',
      finishedAt = ''2024-01-16T02:00:01.200Z''\<rparr>"

text \<open>The same run with the upload to S3 rejected.\<close>

definition uploadFailsEnv :: export_env where
  "uploadFailsEnv = sampleExportEnv\<lparr>uploadError := Some (Error ''Access Denied'')\<rparr>"

text \<open>
  A table that has grown past the first page of a scan: the four items of \<open>sampleTable\<close>
  fill the page, and a fifth, approved and not exported, lies behind it.
\<close>

definition pagedEnv :: export_env where
  "pagedEnv = sampleExportEnv\<lparr>scanPage := (\<lambda>t. 4)\<rparr>"

definition grownWorld :: world where
  "grownWorld =
     \<lparr>submissions = sampleTable @
        [[''submissionId'' \<mapsto> S ''s5'', ''customerNumber'' \<mapsto> S ''10000000005'',
          ''email'' \<mapsto> S ''i@j.com'', ''submissionDate'' \<mapsto> S ''2024-01-15T12:15:00.000Z'',
          ''status'' \<mapsto> S ''approved'', ''exported'' \<mapsto> BOOL False]],
      exportBucket = Map.empty\<rparr>"

text \<open>A record whose customer number is wider than its span of 25 columns.\<close>

definition wideRecord :: item where
  "wideRecord =
     [''submissionId'' \<mapsto> S ''s9'', ''customerNumber'' \<mapsto> S ''100012345671000123456710001234567'',
      ''email'' \<mapsto> S ''a@b.com'', ''submissionDate'' \<mapsto> S ''2024-01-15T10:30:00.000Z'',
      ''status'' \<mapsto> S ''approved'', ''exported'' \<mapsto> BOOL False]"

text \<open>
  Callbacks in the form encoding. None of these bodies is JSON text, so \<open>JSON.parse\<close>
  throws on each, and \<open>sampleFormEntries\<close> lists what \<open>URLSearchParams\<close> reads from them.
\<close>

definition sampleFormEntries :: "string \<Rightarrow> (string \<times> string) list" where
  "sampleFormEntries b =
     (if b = ''CustomData=s4&VerificationStatus=True''
        then [(''CustomData'', ''s4''), (''VerificationStatus'', ''True'')]
      else if b = ''CustomData=s4&VerificationStatus=true''
        then [(''CustomData'', ''s4''), (''VerificationStatus'', ''true'')]
      else if b = ''CustomData=s1&VerificationStatus=True''
        then [(''CustomData'', ''s1''), (''VerificationStatus'', ''True'')]
      else if b = ''CustomData=s1&VerificationStatus=False''
        then [(''CustomData'', ''s1''), (''VerificationStatus'', ''False'')]
      else [])"

definition sampleWebhookEnv :: webhook_env where
  "sampleWebhookEnv =
     \<lparr>urlSearchParams = sampleFormEntries,
      JSON_parse = (\<lambda>b. None),
      getError = None,
      badKeyError = Error ''SerializationException'',
      updateStatusError = None,
      updatedAtNow = ''2024-01-15T12:00:00.000Z''\<rparr>"

definition callback :: "string \<Rightarrow> event" where
  "callback b = \<lparr>httpMethod = ''POST'', origin = Some ''https://verification.thirdparty.com'',
                 requestBody = Some b, queryStringParameters = Map.empty\<rparr>"

text \<open>
  Stand-ins for the primitives of \<open>crypto\<close>, for running the form processor on an example:
  a digest of 32 bytes and a block cipher that is its own inverse. They are not SHA-256
  and AES; the theorems hold for every digest and every cipher.
\<close>

definition standInDigest :: "byte list \<Rightarrow> byte list" where
  "standInDigest bs = take 32 (bs @ replicate 32 0x5A)"

definition standInCipher :: "byte list \<Rightarrow> byte list \<Rightarrow> byte list" where
  "standInCipher k blk = xorBytes blk (take 16 k)"

definition sampleHandoffEnv :: handoff_env where
  "sampleHandoffEnv =
     \<lparr>urlSearchParams = (\<lambda>b. []),
      getParameter = (\<lambda>p. Inr ''shared-secret''),
      randomUUID = ''0b9f6c1e-5d2a-4c7e-9a41-2f6d3c8e7b10'',
      submissionDateNow = ''2024-01-15T10:30:00.000Z'',
      putError = None,
      callbackURLVar = None,
      sha256 = standInDigest,
      aes256 = standInCipher,
      randomBytes16 = [1, 2, 3, 4, 5, 6, 7, 8, 9, 10, 11, 12, 13, 14, 15, 16]\<rparr>"

definition formRequest :: "(string \<times> string) list \<Rightarrow> event" where
  "formRequest ps = \<lparr>httpMethod = ''GET'', origin = Some ''https://forms.council-a.gov.uk'',
                     requestBody = None, queryStringParameters = map_of ps\<rparr>"

section \<open>Properties of the exporter\<close>

subsection \<open>The width of a record\<close>

lemma length_fixedWidthFields_ge:
  "606 \<le> length (fixedWidthFields c e d)"
  by (simp add: fixedWidthFields_def padStart_def padEnd_def)

text \<open>
  C4: for every record whose submission date parses, \<open>recordToFixedWidth\<close> returns a record
  of exactly 606 characters: the first 606 characters of the fields laid one after the
  other, so that a customer number or an email that overruns its span is cut at the total
  width.
\<close>

theorem recordToFixedWidth_606:
  assumes "toISO (attrS r ''submissionDate'') = Some isoText"
  shows "\<exists>out. recordToFixedWidth toISO r = Inr out \<and> length out = 606
           \<and> out = take 606 (fixedWidthFields (attrS r ''customerNumber'') (attrS r ''email'') (ymd isoText))"
  using assms length_fixedWidthFields_ge [of "attrS r ''customerNumber''" "attrS r ''email''" "ymd isoText"]
  by (simp add: recordToFixedWidth_def padEnd_def Let_def min_def)

theorem recordToFixedWidth_606_witness:
  "toISOString sampleExportEnv (attrS wideRecord ''submissionDate'') = Some ''2024-01-15T10:30:00.000Z''
   \<and> length (fixedWidthFields (attrS wideRecord ''customerNumber'') (attrS wideRecord ''email'')
                (ymd ''2024-01-15T10:30:00.000Z'')) = 614
   \<and> (\<exists>out. recordToFixedWidth (toISOString sampleExportEnv) wideRecord = Inr out \<and> length out = 606
           \<and> out = take 606 (fixedWidthFields (attrS wideRecord ''customerNumber'')
                               (attrS wideRecord ''email'') (ymd ''2024-01-15T10:30:00.000Z'')))"
proof -
  have h: "toISOString sampleExportEnv (attrS wideRecord ''submissionDate'') = Some ''2024-01-15T10:30:00.000Z''"
    by (simp add: sampleExportEnv_def wideRecord_def attrS_def)
  have l: "length (fixedWidthFields (attrS wideRecord ''customerNumber'') (attrS wideRecord ''email'')
                (ymd ''2024-01-15T10:30:00.000Z'')) = 614"
    by (simp add: wideRecord_def attrS_def fixedWidthFields_def padStart_def padEnd_def ymd_def)
  from h l recordToFixedWidth_606 [of "toISOString sampleExportEnv" wideRecord "''2024-01-15T10:30:00.000Z''"]
  show ?thesis by simp
qed

subsection \<open>Updates by key\<close>

lemma hasKey_keyOf: "hasKey k it \<longleftrightarrow> keyOf it = Some k"
  by (auto simp: hasKey_def keyOf_def split: option.splits attr.splits)

lemma keyOf_markExported [simp]: "keyOf (markExported a it) = keyOf it"
  by (simp add: keyOf_def markExported_def)

lemma keyOf_attrS: "keyOf it = Some k \<Longrightarrow> attrS it ''submissionId'' = k"
  by (auto simp: keyOf_def attrS_def split: option.splits attr.splits)

lemma attrS_markExported [simp]:
  "attrS (markExported a it) ''submissionId'' = attrS it ''submissionId''"
  by (simp add: attrS_def markExported_def)

lemma markExported_idem [simp]: "markExported a (markExported a it) = markExported a it"
  by (simp add: markExported_def)

lemma getItem_None_iff: "getItem t k = None \<longleftrightarrow> (\<forall>it\<in>set t. keyOf it \<noteq> Some k)"
  by (auto simp: getItem_def find_None_iff hasKey_keyOf)

lemma updateItem_known:
  assumes "Some k \<in> set (map keyOf t)"
  shows "updateItem t k upd = map (\<lambda>it. if keyOf it = Some k then upd it else it) t"
proof -
  from assms have "getItem t k \<noteq> None" by (auto simp: getItem_None_iff)
  then show ?thesis by (auto simp: updateItem_def hasKey_keyOf split: option.splits)
qed

text \<open>The table after the updates of a list of known keys, none of which fails.\<close>

lemma fold_mark:
  assumes "\<forall>k\<in>set ks. updateError env k = None"
      and "Some ` set ks \<subseteq> set (map keyOf t)"
  shows "fold (\<lambda>k acc. if updateError env k = None
                        then updateItem acc k (markExported (exportedAtOf env k))
                        else acc) ks t
         = map (\<lambda>it. if keyOf it \<in> Some ` set ks
                     then markExported (exportedAtOf env (attrS it ''submissionId'')) it
                     else it) t"
  using assms
proof (induction ks arbitrary: t)
  case Nil
  show ?case by simp
next
  case (Cons k ks)
  let ?u = "markExported (exportedAtOf env k)"
  let ?t1 = "map (\<lambda>it. if keyOf it = Some k then ?u it else it) t"
  from Cons.prems have "Some k \<in> set (map keyOf t)" by auto
  then have u: "updateItem t k ?u = ?t1" by (rule updateItem_known)
  have keys: "map keyOf ?t1 = map keyOf t" by simp
  have "fold (\<lambda>k acc. if updateError env k = None
                        then updateItem acc k (markExported (exportedAtOf env k))
                        else acc) (k # ks) t
        = map (\<lambda>it. if keyOf it \<in> Some ` set ks
                     then markExported (exportedAtOf env (attrS it ''submissionId'')) it
                     else it) ?t1"
    using Cons.prems Cons.IH [of ?t1] u keys by simp
  also have "\<dots> = map (\<lambda>it. if keyOf it \<in> Some ` set (k # ks)
                     then markExported (exportedAtOf env (attrS it ''submissionId'')) it
                     else it) t"
    by (auto simp: keyOf_attrS)
  finally show ?case .
qed

lemma mapE_submissionIdOf:
  "list_all (\<lambda>it. keyOf it \<noteq> None) rs \<Longrightarrow>
   mapE submissionIdOf rs = Inr (map (\<lambda>it. attrS it ''submissionId'') rs)"
  by (induction rs) (auto simp: submissionIdOf_def keyOf_attrS split: option.splits)

text \<open>In a table with one item per key, the keys of the selected items select them.\<close>

lemma selected_keys:
  assumes "wfTable t" "it \<in> set t"
  shows "keyOf it \<in> Some ` set (map (\<lambda>it. attrS it ''submissionId'') (filter P t)) \<longleftrightarrow> P it"
proof
  assume "keyOf it \<in> Some ` set (map (\<lambda>it. attrS it ''submissionId'') (filter P t))"
  then obtain it' where i': "it' \<in> set t" "P it'" "keyOf it = Some (attrS it' ''submissionId'')"
    by auto
  from assms(1) i'(1) obtain k where k: "keyOf it' = Some k"
    by (auto simp: wfTable_def list_all_iff)
  then have "attrS it' ''submissionId'' = k" by (rule keyOf_attrS)
  with k i'(3) have eq: "keyOf it' = keyOf it" by simp
  from assms(1) have "inj_on keyOf (set t)" by (simp add: wfTable_def distinct_map)
  from this eq i'(1) assms(2) have "it' = it" by (rule inj_onD)
  with i' show "P it" by simp
next
  assume p: "P it"
  from assms obtain k where k: "keyOf it = Some k" by (auto simp: wfTable_def list_all_iff)
  then have "attrS it ''submissionId'' = k" by (rule keyOf_attrS)
  with k have kk: "keyOf it = Some (attrS it ''submissionId'')" by simp
  from p assms(2) have "it \<in> set (filter P t)" by simp
  then have "attrS it ''submissionId'' \<in> (\<lambda>it. attrS it ''submissionId'') ` set (filter P t)"
    by (rule imageI)
  then have "Some (attrS it ''submissionId'')
             \<in> Some ` ((\<lambda>it. attrS it ''submissionId'') ` set (filter P t))"
    by (rule imageI)
  then show "keyOf it \<in> Some ` set (map (\<lambda>it. attrS it ''submissionId'') (filter P t))"
    by (simp only: kk set_map)
qed

lemma markRecords_ok:
  assumes "wfTable t"
      and "\<forall>it\<in>set t. P it \<longrightarrow> updateError env (attrS it ''submissionId'') = None"
  shows "markRecordsAsExported env t (map (\<lambda>it. attrS it ''submissionId'') (filter P t))
         = (None, map (\<lambda>it. if P it
                             then markExported (exportedAtOf env (attrS it ''submissionId'')) it
                             else it) t)"
proof -
  let ?ks = "map (\<lambda>it. attrS it ''submissionId'') (filter P t)"
  have a: "\<forall>k\<in>set ?ks. updateError env k = None" using assms by auto
  have b: "Some ` set ?ks \<subseteq> set (map keyOf t)"
  proof
    fix x assume "x \<in> Some ` set ?ks"
    then obtain it where it: "it \<in> set t" "x = Some (attrS it ''submissionId'')" by auto
    with assms(1) obtain k where k: "keyOf it = Some k" by (auto simp: wfTable_def list_all_iff)
    then have "attrS it ''submissionId'' = k" by (rule keyOf_attrS)
    with k it have "x = keyOf it" by simp
    with it(1) show "x \<in> set (map keyOf t)" by simp
  qed
  have c: "find (\<lambda>k. updateError env k \<noteq> None) ?ks = None"
    using a by (simp add: find_None_iff)
  have "map (\<lambda>it. if keyOf it \<in> Some ` set ?ks
                  then markExported (exportedAtOf env (attrS it ''submissionId'')) it
                  else it) t
        = map (\<lambda>it. if P it
                    then markExported (exportedAtOf env (attrS it ''submissionId'')) it
                    else it) t"
    by (rule map_cong) (simp_all only: selected_keys [OF assms(1)])
  then show ?thesis
    using fold_mark [OF a b] c by (simp add: markRecordsAsExported_def)
qed

lemma markRecords_fst_None:
  assumes "fst (markRecordsAsExported env t ids) = None"
  shows "\<forall>k\<in>set ids. updateError env k = None"
proof (cases "find (\<lambda>k. updateError env k \<noteq> None) ids")
  case None
  then show ?thesis by (simp add: find_None_iff)
next
  case (Some k)
  then have "updateError env k \<noteq> None" by (auto simp: find_Some_iff)
  with Some assms show ?thesis by (simp add: markRecordsAsExported_def)
qed

lemma statusCode_exportFailed [simp]: "statusCode (exportFailed env e) = 500"
  by (simp add: exportFailed_def)

lemma filter_empty_map_id:
  "filter P t = [] \<Longrightarrow> map (\<lambda>it. if P it then f it else it) t = t"
  by (rule map_idI) (simp add: filter_empty_conv)

text \<open>The matches of the first page, as a selection from the whole table.\<close>

lemma filter_first_page:
  assumes "distinct t"
  shows "filter (\<lambda>x. P x \<and> x \<in> set (take n t)) t = filter P (take n t)"
proof -
  from assms have "set (take n t) \<inter> set (drop n t) = {}"
    by (simp add: set_take_disj_set_drop_if_distinct)
  then have "filter (\<lambda>x. P x \<and> x \<in> set (take n t)) (drop n t) = []"
    by (auto simp: filter_empty_conv)
  moreover have "filter (\<lambda>x. P x \<and> x \<in> set (take n t)) (take n t) = filter P (take n t)"
    by (rule filter_cong) simp_all
  ultimately have "filter (\<lambda>x. P x \<and> x \<in> set (take n t)) (take n t @ drop n t)
                   = filter P (take n t)"
    by (simp only: filter_append append_Nil2)
  then show ?thesis by (simp only: append_take_drop_id)
qed

lemma wfTable_distinct: "wfTable t \<Longrightarrow> distinct t"
  by (simp add: wfTable_def distinct_map)

text \<open>
  In a table with one item per key, a run that answers 200 has marked the approved,
  unexported items of the first page of the scan, and has left every other item as it was.
\<close>

lemma export_success_table:
  assumes wf: "wfTable (submissions w)"
      and ok: "statusCode (fst (handler_export env w)) = 200"
  shows "submissions (snd (handler_export env w)) =
         map (\<lambda>it. if isApprovedUnexported it
                      \<and> it \<in> set (take (scanPage env (submissions w)) (submissions w))
                   then markExported (exportedAtOf env (attrS it ''submissionId'')) it
                   else it) (submissions w)"
proof -
  let ?P = "\<lambda>it. isApprovedUnexported it
                 \<and> it \<in> set (take (scanPage env (submissions w)) (submissions w))"
  let ?sel = "filter ?P (submissions w)"
  let ?ids = "map (\<lambda>it. attrS it ''submissionId'') ?sel"
  from wf have "distinct (submissions w)" by (rule wfTable_distinct)
  then have page: "filter isApprovedUnexported (take (scanPage env (submissions w)) (submissions w))
                   = ?sel"
    by (simp only: filter_first_page)
  have scan: "getApprovedRecords env (submissions w)
              = (case scanError env of Some e \<Rightarrow> Inl e | None \<Rightarrow> Inr ?sel)"
    by (simp only: getApprovedRecords_def page)
  show ?thesis
  proof (cases "?sel = []")
    case True
    then have "snd (handler_export env w) = w"
      by (simp add: handler_export_def scan split: option.splits)
    with True show ?thesis by (simp only: filter_empty_map_id)
  next
    case False
    from wf have "list_all (\<lambda>it. keyOf it \<noteq> None) ?sel"
      by (auto simp: wfTable_def list_all_iff)
    then have ids: "mapE submissionIdOf ?sel = Inr ?ids" by (rule mapE_submissionIdOf)
    from ok False ids
    have none: "fst (markRecordsAsExported env (submissions w) ?ids) = None"
      and res: "submissions (snd (handler_export env w))
                = snd (markRecordsAsExported env (submissions w) ?ids)"
      by (auto simp: handler_export_def scan uploadExportFile_def Let_def
               split: option.splits sum.splits prod.splits)
    from none have "\<forall>k\<in>set ?ids. updateError env k = None" by (rule markRecords_fst_None)
    then have "\<forall>it\<in>set (submissions w).
                 ?P it \<longrightarrow> updateError env (attrS it ''submissionId'') = None"
      by simp
    from markRecords_ok [OF wf this] res show ?thesis by simp
  qed
qed

lemma wfTable_sample: "wfTable (submissions sampleWorld)"
  by (simp add: wfTable_def sampleWorld_def sampleTable_def keyOf_def)

lemmas export_eval =
  handler_export_def getApprovedRecords_def sampleWorld_def sampleExportEnv_def uploadFailsEnv_def
  sampleTable_def isApprovedUnexported_def recordToFixedWidth_def attrS_def uploadExportFile_def
  submissionIdOf_def keyOf_def markRecordsAsExported_def Let_def updateItem_def getItem_def
  hasKey_def markExported_def

subsection \<open>Selection and frame of a run\<close>

text \<open>
  C2 on a table that the scan answers in more than one page. The first four items fill
  the first page; the fifth, \<open>s5\<close>, is approved and not exported. The run selects \<open>s1\<close>
  alone, answers 200, writes a file of one record and marks \<open>s1\<close>; \<open>s5\<close> is not in the file
  and is left approved and not exported, and every item but \<open>s1\<close> is as it was.
\<close>

theorem second_page_is_not_selected:
  "map (\<lambda>it. (attrS it ''submissionId'', attrS it ''status'', it ''exported''))
      (submissions grownWorld)
     = [(''s1'', ''approved'', Some (BOOL False)), (''s2'', ''failed'', Some (BOOL False)),
        (''s3'', ''approved'', Some (BOOL True)), (''s4'', ''pending'', Some (BOOL False)),
        (''s5'', ''approved'', Some (BOOL False))]
   \<and> map_sum id (map (\<lambda>it. attrS it ''submissionId''))
        (getApprovedRecords pagedEnv (submissions grownWorld)) = Inr [''s1'']
   \<and> statusCode (fst (handler_export pagedEnv grownWorld)) = 200
   \<and> map_option length
        (exportBucket (snd (handler_export pagedEnv grownWorld)) ''DIRECT_DEBIT_EXPORT_20240116.txt'')
       = Some 606
   \<and> map (\<lambda>it. (attrS it ''submissionId'', attrS it ''status'', it ''exported''))
        (submissions (snd (handler_export pagedEnv grownWorld)))
     = [(''s1'', ''approved'', Some (BOOL True)), (''s2'', ''failed'', Some (BOOL False)),
        (''s3'', ''approved'', Some (BOOL True)), (''s4'', ''pending'', Some (BOOL False)),
        (''s5'', ''approved'', Some (BOOL False))]
   \<and> drop 1 (submissions (snd (handler_export pagedEnv grownWorld)))
       = drop 1 (submissions grownWorld)"
  by (simp add: export_eval pagedEnv_def grownWorld_def fixedWidthFields_def padStart_def
                padEnd_def ymd_def)

subsection \<open>A failed upload\<close>

lemma export_upload_fails:
  "uploadError env = Some e \<Longrightarrow> snd (handler_export env w) = w"
  by (simp add: handler_export_def uploadExportFile_def split: sum.splits)

lemma export_marks_only_after_upload:
  assumes "submissions (snd (handler_export env w)) \<noteq> submissions w"
  shows "uploadError env = None
         \<and> (\<exists>content. exportBucket (snd (handler_export env w))
               (''DIRECT_DEBIT_EXPORT_'' @ ymd (fileDate env) @ ''.txt'') = Some content)"
  using assms
  by (auto simp: handler_export_def uploadExportFile_def Let_def
           split: sum.splits option.splits prod.splits if_splits)

text \<open>
  C3: when the upload of the export file fails, the run leaves the table and the bucket as
  they were, so no item is marked and the items a later run selects are the same; and a
  run that changes the table is one whose upload succeeded, with the file in the bucket.
\<close>

theorem upload_failure_marks_nothing:
  "(uploadError env = Some e \<longrightarrow>
      snd (handler_export env w) = w
      \<and> getApprovedRecords env' (submissions (snd (handler_export env w)))
          = getApprovedRecords env' (submissions w))
   \<and> (submissions (snd (handler_export env w)) \<noteq> submissions w \<longrightarrow>
      uploadError env = None
      \<and> (\<exists>content. exportBucket (snd (handler_export env w))
             (''DIRECT_DEBIT_EXPORT_'' @ ymd (fileDate env) @ ''.txt'') = Some content))"
  using export_upload_fails [of env e w] export_marks_only_after_upload [of env w]
  by auto

theorem upload_failure_marks_nothing_witness:
  "uploadError uploadFailsEnv = Some (Error ''Access Denied'')
   \<and> statusCode (fst (handler_export uploadFailsEnv sampleWorld)) = 500
   \<and> snd (handler_export uploadFailsEnv sampleWorld) = sampleWorld
   \<and> getApprovedRecords sampleExportEnv (submissions (snd (handler_export uploadFailsEnv sampleWorld)))
       = getApprovedRecords sampleExportEnv (submissions sampleWorld)
   \<and> map (\<lambda>it. it ''exported'') (submissions (snd (handler_export sampleExportEnv sampleWorld)))
       \<noteq> map (\<lambda>it. it ''exported'') (submissions sampleWorld)
   \<and> uploadError sampleExportEnv = None
   \<and> (\<exists>content. exportBucket (snd (handler_export sampleExportEnv sampleWorld))
          ''DIRECT_DEBIT_EXPORT_20240116.txt'' = Some content)"
proof -
  have h: "uploadError uploadFailsEnv = Some (Error ''Access Denied'')"
    by (simp add: uploadFailsEnv_def)
  have st: "statusCode (fst (handler_export uploadFailsEnv sampleWorld)) = 500"
    by (simp add: export_eval)
  have ch: "map (\<lambda>it. it ''exported'') (submissions (snd (handler_export sampleExportEnv sampleWorld)))
       \<noteq> map (\<lambda>it. it ''exported'') (submissions sampleWorld)"
    by (simp add: export_eval)
  then have ne: "submissions (snd (handler_export sampleExportEnv sampleWorld)) \<noteq> submissions sampleWorld"
    by auto
  have fn: "''DIRECT_DEBIT_EXPORT_'' @ ymd (fileDate sampleExportEnv) @ ''.txt''
            = ''DIRECT_DEBIT_EXPORT_20240116.txt''"
    by (simp add: sampleExportEnv_def ymd_def)
  from upload_failure_marks_nothing
         [of uploadFailsEnv "Error ''Access Denied''" sampleWorld sampleExportEnv]
       upload_failure_marks_nothing
         [of sampleExportEnv "Error ''Access Denied''" sampleWorld sampleExportEnv]
       h st ch ne fn
  show ?thesis by simp
qed

section \<open>Properties of the webhook handler\<close>

subsection \<open>Reading the table after an update\<close>

lemma find_hasKey_map_same:
  assumes "find (hasKey k) t = Some it" and "\<And>x. upd x ''submissionId'' = x ''submissionId''"
  shows "find (hasKey k) (map (\<lambda>x. if hasKey k x then upd x else x) t) = Some (upd it)"
  using assms(1)
  by (induction t) (auto simp: hasKey_def assms(2))

lemma find_hasKey_map_other:
  assumes "k' \<noteq> k" and "\<And>x. upd x ''submissionId'' = x ''submissionId''"
  shows "find (hasKey k') (map (\<lambda>x. if hasKey k x then upd x else x) t) = find (hasKey k') t"
  using assms(1)
  by (induction t) (auto simp: hasKey_def assms(2))

lemma getItem_updateItem_same:
  assumes "getItem t k = Some it" and "\<And>x. upd x ''submissionId'' = x ''submissionId''"
  shows "getItem (updateItem t k upd) k = Some (upd it)"
  using assms find_hasKey_map_same [of k t it upd]
  by (simp add: updateItem_def getItem_def)

lemma getItem_updateItem_other:
  assumes "getItem t k = Some it" "k' \<noteq> k" and "\<And>x. upd x ''submissionId'' = x ''submissionId''"
  shows "getItem (updateItem t k upd) k' = getItem t k'"
  using assms find_hasKey_map_other [of k' k upd t]
  by (simp add: updateItem_def getItem_def)

subsection \<open>A callback for a known submission\<close>

text \<open>
  The call the claims are about: a POST with a body whose payload is an object carrying, as
  \<open>CustomData\<close>, the key of an item of the table, while DynamoDB answers.
\<close>

lemma webhook_known:
  assumes "httpMethod ev = ''POST''" and "requestBody ev = Some b" and "b \<noteq> []"
      and "parseWebhookBody env b = JObj ps"
      and "map_of ps ''CustomData'' = Some (JStr sid)" and "sid \<noteq> []"
      and "getItem t sid = Some it"
      and "getError env = None" and "updateStatusError env = None"
      and "status = (if map_of ps ''VerificationStatus'' = Some (JStr ''True'')
                        \<or> map_of ps ''VerificationStatus'' = Some (JBool True)
                     then ''approved'' else ''failed'')"
  shows "handler_webhook env ev t =
           (\<lparr>statusCode = 200, headers = getCorsHeaders_webhook (origin ev),
             body = jsonStringify (JObj
               [(''success'', JBool True), (''submissionId'', JStr sid), (''status'', JStr status),
                (''message'', JStr (''Submission '' @ sid @ '' updated with status: '' @ status))])\<rparr>,
            updateItem t sid (\<lambda>it. it(''status'' \<mapsto> S status,
                                      ''webhookData'' \<mapsto> S (jsonStringify (JObj ps)),
                                      ''updatedAt'' \<mapsto> S (updatedAtNow env))))"
  using assms
  by (simp add: handler_webhook_def handler_webhook_try_def getSubmission_def updateSubmissionStatus_def Let_def)

lemmas webhook_eval =
  handler_webhook_def handler_webhook_try_def getSubmission_def updateSubmissionStatus_def Let_def
  parseWebhookBody_def fromEntries_def setProperty_def isArrayIndex_def isDigit_def digitsToNat_def
  sampleWebhookEnv_def sampleFormEntries_def callback_def sampleTable_def
  updateItem_def getItem_def hasKey_def webhookError_def

subsection \<open>The outcome of a callback\<close>

text \<open>
  C6, as the handler has it: for a callback carrying the key of a known submission, the
  status answered and stored is \<open>approved\<close> exactly when the \<open>VerificationStatus\<close> property
  is the string \<open>True\<close> (capital T) or the boolean \<open>true\<close>, and \<open>failed\<close> for every other
  value and when the property is absent.
\<close>

theorem callback_outcome:
  assumes "httpMethod ev = ''POST''" and "requestBody ev = Some b" and "b \<noteq> []"
      and "parseWebhookBody env b = JObj ps"
      and "map_of ps ''CustomData'' = Some (JStr sid)" and "sid \<noteq> []"
      and "getItem t sid = Some it"
      and "getError env = None" and "updateStatusError env = None"
      and "status = (if map_of ps ''VerificationStatus'' = Some (JStr ''True'')
                        \<or> map_of ps ''VerificationStatus'' = Some (JBool True)
                     then ''approved'' else ''failed'')"
  shows "statusCode (fst (handler_webhook env ev t)) = 200
         \<and> body (fst (handler_webhook env ev t))
             = jsonStringify (JObj
                 [(''success'', JBool True), (''submissionId'', JStr sid), (''status'', JStr status),
                  (''message'', JStr (''Submission '' @ sid @ '' updated with status: '' @ status))])
         \<and> map_option (\<lambda>x. x ''status'') (getItem (snd (handler_webhook env ev t)) sid)
             = Some (Some (S status))"
proof -
  note r = webhook_known [OF assms]
  have "getItem (updateItem t sid (\<lambda>it. it(''status'' \<mapsto> S status,
                                      ''webhookData'' \<mapsto> S (jsonStringify (JObj ps)),
                                      ''updatedAt'' \<mapsto> S (updatedAtNow env)))) sid
        = Some (it(''status'' \<mapsto> S status, ''webhookData'' \<mapsto> S (jsonStringify (JObj ps)),
                   ''updatedAt'' \<mapsto> S (updatedAtNow env)))"
    using assms(7) by (rule getItem_updateItem_same) simp
  with r show ?thesis by simp
qed

theorem callback_outcome_witness:
  "parseWebhookBody sampleWebhookEnv ''CustomData=s4&VerificationStatus=True''
     = JObj [(''CustomData'', JStr ''s4''), (''VerificationStatus'', JStr ''True'')]
   \<and> map_option (\<lambda>x. x ''status'') (getItem sampleTable ''s4'') = Some (Some (S ''pending''))
   \<and> statusCode (fst (handler_webhook sampleWebhookEnv
                          (callback ''CustomData=s4&VerificationStatus=True'') sampleTable)) = 200
   \<and> map_option (\<lambda>x. x ''status'')
        (getItem (snd (handler_webhook sampleWebhookEnv
                         (callback ''CustomData=s4&VerificationStatus=True'') sampleTable)) ''s4'')
       = Some (Some (S ''approved''))"
proof -
  let ?b = "''CustomData=s4&VerificationStatus=True''"
  let ?ps = "[(''CustomData'', JStr ''s4''), (''VerificationStatus'', JStr ''True'')]"
  have p: "parseWebhookBody sampleWebhookEnv ?b = JObj ?ps"
    by (simp add: webhook_eval)
  obtain it where it: "getItem sampleTable ''s4'' = Some it" "it ''status'' = Some (S ''pending'')"
    by (simp add: webhook_eval)
  have "statusCode (fst (handler_webhook sampleWebhookEnv (callback ?b) sampleTable)) = 200
        \<and> map_option (\<lambda>x. x ''status'')
             (getItem (snd (handler_webhook sampleWebhookEnv (callback ?b) sampleTable)) ''s4'')
            = Some (Some (S ''approved''))"
    using callback_outcome [of "callback ?b" ?b sampleWebhookEnv ?ps "''s4''" sampleTable it "''approved''"]
          p it(1)
    by (simp add: callback_def sampleWebhookEnv_def)
  with p it show ?thesis by simp
qed

text \<open>The string \<open>true\<close> in lower case is not the string the handler compares with.\<close>

theorem lowercase_true_is_failed:
  "parseWebhookBody sampleWebhookEnv ''CustomData=s4&VerificationStatus=true''
     = JObj [(''CustomData'', JStr ''s4''), (''VerificationStatus'', JStr ''true'')]
   \<and> map_option (\<lambda>x. x ''status'') (getItem sampleTable ''s4'') = Some (Some (S ''pending''))
   \<and> statusCode (fst (handler_webhook sampleWebhookEnv
                          (callback ''CustomData=s4&VerificationStatus=true'') sampleTable)) = 200
   \<and> map_option (\<lambda>x. x ''status'')
        (getItem (snd (handler_webhook sampleWebhookEnv
                         (callback ''CustomData=s4&VerificationStatus=true'') sampleTable)) ''s4'')
       = Some (Some (S ''failed''))"
  by (simp add: webhook_eval)

subsection \<open>What is stored of the payload\<close>

text \<open>
  C9, as the handler has it: what a successful callback stores, in the attribute
  \<open>webhookData\<close>, is \<open>JSON.stringify\<close> of the parsed payload, whatever the bytes of the body
  were.
\<close>

theorem stored_payload_is_stringified:
  assumes "httpMethod ev = ''POST''" and "requestBody ev = Some b" and "b \<noteq> []"
      and "parseWebhookBody env b = JObj ps"
      and "map_of ps ''CustomData'' = Some (JStr sid)" and "sid \<noteq> []"
      and "getItem t sid = Some it"
      and "getError env = None" and "updateStatusError env = None"
  shows "statusCode (fst (handler_webhook env ev t)) = 200
         \<and> map_option (\<lambda>x. x ''webhookData'') (getItem (snd (handler_webhook env ev t)) sid)
             = Some (Some (S (jsonStringify (parseWebhookBody env b))))"
proof -
  define status where
    "status = (if map_of ps ''VerificationStatus'' = Some (JStr ''True'')
                  \<or> map_of ps ''VerificationStatus'' = Some (JBool True)
               then ''approved'' else ''failed'')"
  note r = webhook_known [OF assms status_def]
  have "getItem (updateItem t sid (\<lambda>it. it(''status'' \<mapsto> S status,
                                      ''webhookData'' \<mapsto> S (jsonStringify (JObj ps)),
                                      ''updatedAt'' \<mapsto> S (updatedAtNow env)))) sid
        = Some (it(''status'' \<mapsto> S status, ''webhookData'' \<mapsto> S (jsonStringify (JObj ps)),
                   ''updatedAt'' \<mapsto> S (updatedAtNow env)))"
    using assms(7) by (rule getItem_updateItem_same) simp
  with r assms(4) show ?thesis by simp
qed

theorem stored_payload_is_stringified_witness:
  "parseWebhookBody sampleWebhookEnv ''CustomData=s1&VerificationStatus=True''
     = JObj [(''CustomData'', JStr ''s1''), (''VerificationStatus'', JStr ''True'')]
   \<and> statusCode (fst (handler_webhook sampleWebhookEnv
                          (callback ''CustomData=s1&VerificationStatus=True'') sampleTable)) = 200
   \<and> map_option (\<lambda>x. x ''webhookData'')
        (getItem (snd (handler_webhook sampleWebhookEnv
                         (callback ''CustomData=s1&VerificationStatus=True'') sampleTable)) ''s1'')
       = Some (Some (S (jsonStringify
           (parseWebhookBody sampleWebhookEnv ''CustomData=s1&VerificationStatus=True''))))"
proof -
  let ?b = "''CustomData=s1&VerificationStatus=True''"
  let ?ps = "[(''CustomData'', JStr ''s1''), (''VerificationStatus'', JStr ''True'')]"
  have p: "parseWebhookBody sampleWebhookEnv ?b = JObj ?ps"
    by (simp add: webhook_eval)
  obtain it where it: "getItem sampleTable ''s1'' = Some it"
    by (simp add: webhook_eval)
  from stored_payload_is_stringified [of "callback ?b" ?b sampleWebhookEnv ?ps "''s1''" sampleTable it]
       p it
  have "statusCode (fst (handler_webhook sampleWebhookEnv (callback ?b) sampleTable)) = 200
        \<and> map_option (\<lambda>x. x ''webhookData'')
             (getItem (snd (handler_webhook sampleWebhookEnv (callback ?b) sampleTable)) ''s1'')
            = Some (Some (S (jsonStringify (parseWebhookBody sampleWebhookEnv ?b))))"
    by (simp add: callback_def sampleWebhookEnv_def)
  with p show ?thesis by simp
qed

text \<open>A form-encoded body is stored as the JSON text of the object parsed from it.\<close>

theorem form_body_is_not_stored_verbatim:
  "requestBody (callback ''CustomData=s4&VerificationStatus=True'')
     = Some ''CustomData=s4&VerificationStatus=True''
   \<and> JSON_parse sampleWebhookEnv ''CustomData=s4&VerificationStatus=True'' = None
   \<and> statusCode (fst (handler_webhook sampleWebhookEnv
                          (callback ''CustomData=s4&VerificationStatus=True'') sampleTable)) = 200
   \<and> map_option (\<lambda>x. x ''webhookData'')
        (getItem (snd (handler_webhook sampleWebhookEnv
                         (callback ''CustomData=s4&VerificationStatus=True'') sampleTable)) ''s4'')
       = Some (Some (S (''{'' @ [CHR 0x22] @ ''CustomData'' @ [CHR 0x22] @ '':''
                        @ [CHR 0x22] @ ''s4'' @ [CHR 0x22] @ '','' @ [CHR 0x22]
                        @ ''VerificationStatus'' @ [CHR 0x22] @ '':'' @ [CHR 0x22] @ ''True''
                        @ [CHR 0x22] @ ''}'')))
   \<and> map_option (\<lambda>x. x ''webhookData'')
        (getItem (snd (handler_webhook sampleWebhookEnv
                         (callback ''CustomData=s4&VerificationStatus=True'') sampleTable)) ''s4'')
       \<noteq> Some (Some (S ''CustomData=s4&VerificationStatus=True''))
   \<and> map_option (\<lambda>x. x ''verificationPayload'')
        (getItem (snd (handler_webhook sampleWebhookEnv
                         (callback ''CustomData=s4&VerificationStatus=True'') sampleTable)) ''s4'')
       = Some None"
  by (simp add: webhook_eval quoteJSONString_def quoteChar_def)

subsection \<open>A second callback\<close>

lemma webhook_status_codes:
  "statusCode (fst (handler_webhook env ev t)) \<in> {200, 400, 404, 500}"
  by (auto simp: handler_webhook_def handler_webhook_try_def webhookError_def Let_def
           split: sum.splits option.splits json.splits)

text \<open>
  C1, as the handler has it: a callback for a submission whose status is already
  \<open>approved\<close> or \<open>failed\<close> is answered with 200 and the outcome of this callback, and the item
  becomes the item it was with \<open>status\<close> set to that outcome and \<open>webhookData\<close> and
  \<open>updatedAt\<close> rewritten; every other item reads as before. With the outcome already
  stored the status so stays as it was; with the other outcome it is overwritten. No
  answer of the handler is a conflict: its status codes are 200, 400, 404 and 500.
\<close>

theorem terminal_status_is_overwritten:
  assumes "httpMethod ev = ''POST''" and "requestBody ev = Some b" and "b \<noteq> []"
      and "parseWebhookBody env b = JObj ps"
      and "map_of ps ''CustomData'' = Some (JStr sid)" and "sid \<noteq> []"
      and "getItem t sid = Some it"
      and "getError env = None" and "updateStatusError env = None"
      and "outcome = (if map_of ps ''VerificationStatus'' = Some (JStr ''True'')
                         \<or> map_of ps ''VerificationStatus'' = Some (JBool True)
                      then ''approved'' else ''failed'')"
      and "it ''status'' = Some (S ''approved'') \<or> it ''status'' = Some (S ''failed'')"
  shows "statusCode (fst (handler_webhook env ev t)) = 200
         \<and> body (fst (handler_webhook env ev t))
             = jsonStringify (JObj
                 [(''success'', JBool True), (''submissionId'', JStr sid), (''status'', JStr outcome),
                  (''message'', JStr (''Submission '' @ sid @ '' updated with status: '' @ outcome))])
         \<and> getItem (snd (handler_webhook env ev t)) sid
             = Some (it(''status'' \<mapsto> S outcome,
                        ''webhookData'' \<mapsto> S (jsonStringify (JObj ps)),
                        ''updatedAt'' \<mapsto> S (updatedAtNow env)))
         \<and> (\<forall>k. k \<noteq> sid \<longrightarrow> getItem (snd (handler_webhook env ev t)) k = getItem t k)
         \<and> statusCode (fst (handler_webhook env' ev' t')) \<in> {200, 400, 404, 500}"
proof -
  let ?upd = "\<lambda>it. it(''status'' \<mapsto> S outcome,
                       ''webhookData'' \<mapsto> S (jsonStringify (JObj ps)),
                       ''updatedAt'' \<mapsto> S (updatedAtNow env))"
  note r = webhook_known [OF assms(1-10)]
  have same: "getItem (updateItem t sid ?upd) sid = Some (?upd it)"
    using assms(7) by (rule getItem_updateItem_same) simp
  have other: "getItem (updateItem t sid ?upd) k = getItem t k" if "k \<noteq> sid" for k
    using assms(7) that by (rule getItem_updateItem_other) simp
  from r same other webhook_status_codes [of env' ev' t'] show ?thesis by simp
qed

theorem terminal_status_is_overwritten_witness:
  "parseWebhookBody sampleWebhookEnv ''CustomData=s1&VerificationStatus=True''
     = JObj [(''CustomData'', JStr ''s1''), (''VerificationStatus'', JStr ''True'')]
   \<and> map_option (\<lambda>x. x ''status'') (getItem sampleTable ''s1'') = Some (Some (S ''approved''))
   \<and> statusCode (fst (handler_webhook sampleWebhookEnv
                          (callback ''CustomData=s1&VerificationStatus=True'') sampleTable)) = 200
   \<and> map_option (\<lambda>x. x ''status'')
        (getItem (snd (handler_webhook sampleWebhookEnv
                         (callback ''CustomData=s1&VerificationStatus=True'') sampleTable)) ''s1'')
       = Some (Some (S ''approved''))
   \<and> map_option (\<lambda>x. x ''updatedAt'')
        (getItem (snd (handler_webhook sampleWebhookEnv
                         (callback ''CustomData=s1&VerificationStatus=True'') sampleTable)) ''s1'')
       = Some (Some (S ''2024-01-15T12:00:00.000Z''))
   \<and> getItem (snd (handler_webhook sampleWebhookEnv
                      (callback ''CustomData=s1&VerificationStatus=True'') sampleTable)) ''s4''
       = getItem sampleTable ''s4''"
proof -
  let ?b = "''CustomData=s1&VerificationStatus=True''"
  let ?ps = "[(''CustomData'', JStr ''s1''), (''VerificationStatus'', JStr ''True'')]"
  have p: "parseWebhookBody sampleWebhookEnv ?b = JObj ?ps"
    by (simp add: webhook_eval)
  obtain it where it: "getItem sampleTable ''s1'' = Some it" "it ''status'' = Some (S ''approved'')"
    by (simp add: webhook_eval)
  from terminal_status_is_overwritten
         [of "callback ?b" ?b sampleWebhookEnv ?ps "''s1''" sampleTable it "''approved''"]
       p it
  have "statusCode (fst (handler_webhook sampleWebhookEnv (callback ?b) sampleTable)) = 200
        \<and> getItem (snd (handler_webhook sampleWebhookEnv (callback ?b) sampleTable)) ''s1''
            = Some (it(''status'' \<mapsto> S ''approved'',
                       ''webhookData'' \<mapsto> S (jsonStringify (JObj ?ps)),
                       ''updatedAt'' \<mapsto> S (updatedAtNow sampleWebhookEnv)))
        \<and> getItem (snd (handler_webhook sampleWebhookEnv (callback ?b) sampleTable)) ''s4''
            = getItem sampleTable ''s4''"
    by (simp add: callback_def sampleWebhookEnv_def)
  with p it show ?thesis by (simp add: sampleWebhookEnv_def)
qed

text \<open>An approved submission, told afterwards that verification failed, becomes failed.\<close>

theorem approved_then_failed_is_accepted:
  "parseWebhookBody sampleWebhookEnv ''CustomData=s1&VerificationStatus=False''
     = JObj [(''CustomData'', JStr ''s1''), (''VerificationStatus'', JStr ''False'')]
   \<and> map_option (\<lambda>x. x ''status'') (getItem sampleTable ''s1'') = Some (Some (S ''approved''))
   \<and> statusCode (fst (handler_webhook sampleWebhookEnv
                          (callback ''CustomData=s1&VerificationStatus=False'') sampleTable)) = 200
   \<and> map_option (\<lambda>x. x ''status'')
        (getItem (snd (handler_webhook sampleWebhookEnv
                         (callback ''CustomData=s1&VerificationStatus=False'') sampleTable)) ''s1'')
       = Some (Some (S ''failed''))"
  by (simp add: webhook_eval)

section \<open>Properties of the form processor\<close>

subsection \<open>Bytes, blocks and base64\<close>





















subsection \<open>UTF-8\<close>











lemma isWellFormed_small:
  "\<forall>u\<in>set s. unat u < 0xD800 \<Longrightarrow> isWellFormed s"
  by (induction s rule: isWellFormed.induct)
     (auto simp: isHighSurrogate_def isLowSurrogate_def)

lemma unat_of_char: "unat (of_char c :: 16 word) = of_char c"
proof -
  have "(of_char c :: 16 word) = of_nat (of_char c)" by (simp only: of_nat_of_char)
  then have "unat (of_char c :: 16 word) = unat (of_nat (of_char c) :: 16 word)" by simp
  also have "\<dots> = of_char c mod 65536" by (simp add: unat_of_nat)
  also have "\<dots> = of_char c"
  proof (rule mod_less)
    have "(of_char c :: nat) < 256" by simp
    then show "(of_char c :: nat) < 65536" by linarith
  qed
  finally show ?thesis .
qed

lemma isWellFormed_codeUnits: "isWellFormed (codeUnits s)"
proof (rule isWellFormed_small, rule ballI)
  fix u assume "u \<in> set (codeUnits s)"
  then obtain c where "u = of_char c" by (auto simp: codeUnits_def)
  then have "unat u = of_char c" by (simp add: unat_of_char)
  moreover have "(of_char c :: nat) < 0xD800"
  proof -
    have "(of_char c :: nat) < 256" by simp
    then show ?thesis by linarith
  qed
  ultimately show "unat u < 0xD800" by (simp only:)
qed

subsection \<open>Encryption\<close>

lemma encrypt_ok:
  assumes "length (sha256 env (utf8Encode secret)) = 32" and "length (randomBytes16 env) = 16"
  shows "encryptQueryString env q secret
         = Inr (base64Encode (randomBytes16 env @ concat (cbcEncrypt (aes256 env (sha256 env (utf8Encode secret)))
                  (randomBytes16 env) (chunk16 (pkcs7Pad (utf8Encode q))))))"
  using assms by (simp add: encryptQueryString_def Let_def)


lemma standIn_lengths:
  "length (sha256 sampleHandoffEnv bs) = 32" "length (randomBytes16 sampleHandoffEnv) = 16"
  by (simp_all add: sampleHandoffEnv_def standInDigest_def)




lemma utf8Encode_a1: "utf8Encode (codeUnits ''a=1'') = [0x61, 0x3D, 0x31]"
  by (simp add: utf8Encode_def encodeCodePoint_def isHighSurrogate_def isLowSurrogate_def
                codeUnits_def)

subsection \<open>The round trip\<close>




subsection \<open>The empty secret\<close>

text \<open>
  C8, as the function has it: with the empty string as the shared secret
  \<open>encryptQueryString\<close> does not fail. It derives the key as the digest of the empty
  byte string and returns the base64 text of the initialization vector followed by the
  ciphertext, as for every other secret; the function has no check of the secret.
\<close>

theorem empty_secret_is_encrypted:
  assumes "length (sha256 env (utf8Encode [])) = 32" and "length (randomBytes16 env) = 16"
  shows "encryptQueryString env q []
         = Inr (base64Encode (randomBytes16 env
                  @ concat (cbcEncrypt (aes256 env (sha256 env (utf8Encode [])))
                              (randomBytes16 env) (chunk16 (pkcs7Pad (utf8Encode q))))))"
  using assms by (rule encrypt_ok)

theorem empty_secret_is_encrypted_witness:
  "length (sha256 sampleHandoffEnv (utf8Encode [])) = 32
   \<and> length (randomBytes16 sampleHandoffEnv) = 16
   \<and> encryptQueryString sampleHandoffEnv (codeUnits ''customer_number=20007654321'') []
       = Inr (base64Encode (randomBytes16 sampleHandoffEnv
                @ concat (cbcEncrypt (aes256 sampleHandoffEnv (sha256 sampleHandoffEnv (utf8Encode [])))
                            (randomBytes16 sampleHandoffEnv)
                            (chunk16 (pkcs7Pad (utf8Encode (codeUnits ''customer_number=20007654321'')))))))"
  using empty_secret_is_encrypted [of sampleHandoffEnv "codeUnits ''customer_number=20007654321''",
          OF standIn_lengths(1) standIn_lengths(2)]
        standIn_lengths
  by simp

text \<open>
  With the stand-in primitives, the empty secret and the plaintext \<open>a=1\<close> the function
  returns a ciphertext and no error.
\<close>

theorem empty_secret_returns_ciphertext:
  "encryptQueryString sampleHandoffEnv (codeUnits ''a=1'') []
     = Inr ''AQIDBAUGBwgJCgsMDQ4PEDplaFNSUVBfXl1cW1pZWEc=''"
proof -
  have "utf8Encode [] = []" by (simp add: utf8Encode_def)
  then show ?thesis
    unfolding encryptQueryString_def utf8Encode_a1 by code_simp
qed

subsection \<open>The handler on a request that passes\<close>

lemma formTarget_two_way:
  assumes "svc = ''council-a'' \<or> svc = ''council-b''"
  shows "formTarget ft svc cn base
         = (''https://verification.thirdparty.com/forms/'' @ svc
              @ (if ft = Some ''user'' then ''/customer'' else ''/agent''),
            base @ ''&DdPlanReference='' @ cn
              @ (if ft = Some ''user''
                 then ''&showddplanreference=visible&showdob=hidden&showmobile=hidden''
                 else ''&showddplanfields=hidden&applyingascompany=false&showapplyingascompanycheck=hidden&showdob=hidden&showmobile=hidden''))"
  using assms by (auto simp: formTarget_def)

lemma determineService_cases:
  "determineServiceFromCustomerNumber cn = Inr svc \<Longrightarrow> svc = ''council-a'' \<or> svc = ''council-b''"
  by (auto simp: determineServiceFromCustomerNumber_def split: if_splits)

lemma form_success:
  assumes m: "httpMethod ev \<noteq> ''OPTIONS''"
      and p: "requestParameters env ev = p"
      and cnp: "orElse (orElse (p ''customer-number'') (p ''customer_number'')) None = Some rcn"
      and pcp: "orElse (p ''postcode'') None = Some rpc"
      and emp: "orElse (p ''email'') None = Some rml"
      and v: "validateAndSanitizeInput rcn (toUpperCase rpc) rml = Inr (cn, pc, em)"
      and d: "determineServiceFromCustomerNumber cn = Inr svc"
      and s: "orElse (p ''service'') None = None \<or> p ''service'' = Some svc"
      and ssm: "getParameter env (''/forms/'' @ serviceMapping svc @ ''/test/ThirdPartySharedSecret'') = Inr secret"
      and put: "putError env = None"
      and k: "length (sha256 env (utf8Encode (codeUnits secret))) = 32" and iv: "length (randomBytes16 env) = 16"
      and ft: "p ''form_type'' = ft"
      and echo: "echo = (case ft of Some f \<Rightarrow> if f = [] then ''advisor'' else f | None \<Rightarrow> ''advisor'')"
      and cb: "cb = (case orElse (callbackURLVar env) None of Some u \<Rightarrow> u
                     | None \<Rightarrow> ''https://api.example.com/webhook-callback'')"
  shows "\<exists>enc.
           encryptQueryString env
             (codeUnits
               (''customer_number='' @ cn @ ''&postcode='' @ pc @ ''&CurrentPostcode='' @ pc
                @ ''&Email='' @ em @ ''&EmailRetype='' @ em @ ''&CustomData='' @ randomUUID env
                @ ''&CallbackURL='' @ cb @ ''&DdPlanReference='' @ cn
                @ (if ft = Some ''user''
                   then ''&showddplanreference=visible&showdob=hidden&showmobile=hidden''
                   else ''&showddplanfields=hidden&applyingascompany=false&showapplyingascompanycheck=hidden&showdob=hidden&showmobile=hidden'')))
             (codeUnits secret) = Inr enc
         \<and> handler_form env ev t =
             (\<lparr>statusCode = 200, headers = getCorsHeaders_form (origin ev),
               body = jsonStringify (JObj
                 [(''success'', JBool True),
                  (''submissionId'', JStr (randomUUID env)),
                  (''encryptedData'', JStr enc),
                  (''redirectUrl'', JStr (''https://verification.thirdparty.com/forms/'' @ svc
                      @ (if ft = Some ''user'' then ''/customer'' else ''/agent'')
                      @ ''?eData='' @ encodeURIComponent enc)),
                  (''formType'', JStr echo),
                  (''service'', JStr svc)])\<rparr>,
              putItem t (randomUUID env)
                [''submissionId'' \<mapsto> S (randomUUID env),
                 ''customerNumber'' \<mapsto> S cn,
                 ''postcode'' \<mapsto> S pc,
                 ''email'' \<mapsto> S em,
                 ''formType'' \<mapsto> S echo,
                 ''service'' \<mapsto> S svc,
                 ''submissionDate'' \<mapsto> S (submissionDateNow env),
                 ''status'' \<mapsto> S ''pending'',
                 ''exported'' \<mapsto> BOOL False])"
proof -
  let ?q = "''customer_number='' @ cn @ ''&postcode='' @ pc @ ''&CurrentPostcode='' @ pc
              @ ''&Email='' @ em @ ''&EmailRetype='' @ em @ ''&CustomData='' @ randomUUID env
              @ ''&CallbackURL='' @ cb @ ''&DdPlanReference='' @ cn
              @ (if ft = Some ''user''
                 then ''&showddplanreference=visible&showdob=hidden&showmobile=hidden''
                 else ''&showddplanfields=hidden&applyingascompany=false&showapplyingascompanycheck=hidden&showdob=hidden&showmobile=hidden'')"
  from encrypt_ok [OF k iv] obtain enc
    where enc: "encryptQueryString env (codeUnits ?q) (codeUnits secret) = Inr enc"
    by blast
  from d have svc: "svc = ''council-a'' \<or> svc = ''council-b''" by (rule determineService_cases)
  have sm: "\<not> (orElse (p ''service'') None \<noteq> None \<and> p ''service'' \<noteq> Some svc)"
    using s by auto
  have st: "(case orElse ft None of Some f \<Rightarrow> f | None \<Rightarrow> ''advisor'') = echo"
    by (simp add: echo orElse_def split: option.splits)
  have "handler_form env ev t =
             (\<lparr>statusCode = 200, headers = getCorsHeaders_form (origin ev),
               body = jsonStringify (JObj
                 [(''success'', JBool True),
                  (''submissionId'', JStr (randomUUID env)),
                  (''encryptedData'', JStr enc),
                  (''redirectUrl'', JStr (''https://verification.thirdparty.com/forms/'' @ svc
                      @ (if ft = Some ''user'' then ''/customer'' else ''/agent'')
                      @ ''?eData='' @ encodeURIComponent enc)),
                  (''formType'', JStr echo),
                  (''service'', JStr svc)])\<rparr>,
              putItem t (randomUUID env)
                [''submissionId'' \<mapsto> S (randomUUID env),
                 ''customerNumber'' \<mapsto> S cn,
                 ''postcode'' \<mapsto> S pc,
                 ''email'' \<mapsto> S em,
                 ''formType'' \<mapsto> S echo,
                 ''service'' \<mapsto> S svc,
                 ''submissionDate'' \<mapsto> S (submissionDateNow env),
                 ''status'' \<mapsto> S ''pending'',
                 ''exported'' \<mapsto> BOOL False])"
    unfolding handler_form_def handler_form_try_def Let_def p
    using m cnp pcp emp v d sm ssm put ft enc st cb
    by (simp add: formTarget_two_way [OF svc] storeSubmissionData_def del: jsonStringify.simps)
  with enc show ?thesis by blast
qed


lemmas form_eval =
  handler_form_def handler_form_try_def requestParameters_def formRequest_def sampleHandoffEnv_def
  orElse_def toUpperCase_def upperChar_def validateAndSanitizeInput_def customerNumberFormat_def
  isDigit_def isUpperAZ_def isWhitespace_def emailRegexTest_def okEmailChar_def Let_def
  determineServiceFromCustomerNumber_def serviceMapping_def storeSubmissionData_def
  encryptQueryString_def standInDigest_def char_of_def bit_Suc_0_iff
  putItem_def getItem_def hasKey_def sampleTable_def

subsection \<open>The postcode check\<close>

text \<open>
  C7 at the postcode \<open>AB 12\<close>: it has four characters that are not spaces, and the form
  processor accepts it and stores the submission, while the customer validator refuses
  the same postcode.
\<close>

theorem postcode_of_four_characters_is_accepted:
  "length (filter (\<lambda>c. \<not> isWhitespace c)
             (take 10 (filter (\<lambda>c. isUpperAZ c \<or> isDigit c \<or> isWhitespace c) ''AB 12''))) = 4
   \<and> validateAndSanitizeInput ''10001234567'' ''AB 12'' ''a@b.com''
       = Inr (''10001234567'', ''AB 12'', ''a@b.com'')
   \<and> validateAndSanitizeInput_validator ''10001234567'' ''AB 12''
       = Inl (Error ''Invalid postcode format'')
   \<and> statusCode (fst (handler_form sampleHandoffEnv
        (formRequest [(''customer_number'', ''10001234567''), (''postcode'', ''AB 12''),
                      (''email'', ''a@b.com'')]) sampleTable)) = 200
   \<and> map_option (\<lambda>x. x ''postcode'')
        (getItem (snd (handler_form sampleHandoffEnv
           (formRequest [(''customer_number'', ''10001234567''), (''postcode'', ''AB 12''),
                         (''email'', ''a@b.com'')]) sampleTable))
           ''0b9f6c1e-5d2a-4c7e-9a41-2f6d3c8e7b10'')
       = Some (Some (S ''AB 12''))"
  by (simp add: form_eval validateAndSanitizeInput_validator_def)

subsection \<open>The form type\<close>

text \<open>
  C10, as the handler has it: on every request that passes validation, whatever its
  \<open>form_type\<close>, the handler answers 200; the base URL is the customer one and the query
  string carries the customer flags exactly when \<open>form_type\<close> is the string \<open>user\<close>, and
  they are the agent ones for every other value and when there is none. The form type
  answered and stored is the value supplied when that is not empty, and \<open>advisor\<close> when it
  is empty or absent.
\<close>

theorem form_type_selects_variant:
  assumes "httpMethod ev \<noteq> ''OPTIONS''"
      and "requestParameters env ev = p"
      and "orElse (orElse (p ''customer-number'') (p ''customer_number'')) None = Some rcn"
      and "orElse (p ''postcode'') None = Some rpc"
      and "orElse (p ''email'') None = Some rml"
      and "validateAndSanitizeInput rcn (toUpperCase rpc) rml = Inr (cn, pc, em)"
      and "determineServiceFromCustomerNumber cn = Inr svc"
      and "orElse (p ''service'') None = None \<or> p ''service'' = Some svc"
      and "getParameter env (''/forms/'' @ serviceMapping svc @ ''/test/ThirdPartySharedSecret'') = Inr secret"
      and "putError env = None"
      and "length (sha256 env (utf8Encode (codeUnits secret))) = 32" and "length (randomBytes16 env) = 16"
      and "p ''form_type'' = ft"
      and "echo = (case ft of Some f \<Rightarrow> if f = [] then ''advisor'' else f | None \<Rightarrow> ''advisor'')"
      and "cb = (case orElse (callbackURLVar env) None of Some u \<Rightarrow> u
                 | None \<Rightarrow> ''https://api.example.com/webhook-callback'')"
  shows "\<exists>enc.
           encryptQueryString env
             (codeUnits
               (''customer_number='' @ cn @ ''&postcode='' @ pc @ ''&CurrentPostcode='' @ pc
                @ ''&Email='' @ em @ ''&EmailRetype='' @ em @ ''&CustomData='' @ randomUUID env
                @ ''&CallbackURL='' @ cb @ ''&DdPlanReference='' @ cn
                @ (if ft = Some ''user''
                   then ''&showddplanreference=visible&showdob=hidden&showmobile=hidden''
                   else ''&showddplanfields=hidden&applyingascompany=false&showapplyingascompanycheck=hidden&showdob=hidden&showmobile=hidden'')))
             (codeUnits secret) = Inr enc
         \<and> handler_form env ev t =
             (\<lparr>statusCode = 200, headers = getCorsHeaders_form (origin ev),
               body = jsonStringify (JObj
                 [(''success'', JBool True),
                  (''submissionId'', JStr (randomUUID env)),
                  (''encryptedData'', JStr enc),
                  (''redirectUrl'', JStr (''https://verification.thirdparty.com/forms/'' @ svc
                      @ (if ft = Some ''user'' then ''/customer'' else ''/agent'')
                      @ ''?eData='' @ encodeURIComponent enc)),
                  (''formType'', JStr echo),
                  (''service'', JStr svc)])\<rparr>,
              putItem t (randomUUID env)
                [''submissionId'' \<mapsto> S (randomUUID env),
                 ''customerNumber'' \<mapsto> S cn,
                 ''postcode'' \<mapsto> S pc,
                 ''email'' \<mapsto> S em,
                 ''formType'' \<mapsto> S echo,
                 ''service'' \<mapsto> S svc,
                 ''submissionDate'' \<mapsto> S (submissionDateNow env),
                 ''status'' \<mapsto> S ''pending'',
                 ''exported'' \<mapsto> BOOL False])"
  using assms by (rule form_success)

lemma sample_validate:
  "validateAndSanitizeInput ''10001234567'' (toUpperCase ''AB1 2CD'') ''a@b.com''
     = Inr (''10001234567'', ''AB1 2CD'', ''a@b.com'')"
  by (simp add: form_eval)

theorem form_type_selects_variant_witness:
  "requestParameters sampleHandoffEnv
     (formRequest [(''customer_number'', ''10001234567''), (''postcode'', ''AB1 2CD''),
                   (''email'', ''a@b.com''), (''form_type'', ''manager'')]) ''form_type''
     = Some ''manager''
   \<and> (\<exists>enc. handler_form sampleHandoffEnv
        (formRequest [(''customer_number'', ''10001234567''), (''postcode'', ''AB1 2CD''),
                      (''email'', ''a@b.com''), (''form_type'', ''manager'')]) sampleTable =
          (\<lparr>statusCode = 200, headers = getCorsHeaders_form (Some ''https://forms.council-a.gov.uk''),
            body = jsonStringify (JObj
              [(''success'', JBool True),
               (''submissionId'', JStr ''0b9f6c1e-5d2a-4c7e-9a41-2f6d3c8e7b10''),
               (''encryptedData'', JStr enc),
               (''redirectUrl'', JStr (''https://verification.thirdparty.com/forms/council-a/agent?eData=''
                   @ encodeURIComponent enc)),
               (''formType'', JStr ''manager''),
               (''service'', JStr ''council-a'')])\<rparr>,
           putItem sampleTable ''0b9f6c1e-5d2a-4c7e-9a41-2f6d3c8e7b10''
             [''submissionId'' \<mapsto> S ''0b9f6c1e-5d2a-4c7e-9a41-2f6d3c8e7b10'',
              ''customerNumber'' \<mapsto> S ''10001234567'',
              ''postcode'' \<mapsto> S ''AB1 2CD'',
              ''email'' \<mapsto> S ''a@b.com'',
              ''formType'' \<mapsto> S ''manager'',
              ''service'' \<mapsto> S ''council-a'',
              ''submissionDate'' \<mapsto> S ''2024-01-15T10:30:00.000Z'',
              ''status'' \<mapsto> S ''pending'',
              ''exported'' \<mapsto> BOOL False]))"
proof -
  let ?ev = "formRequest [(''customer_number'', ''10001234567''), (''postcode'', ''AB1 2CD''),
                          (''email'', ''a@b.com''), (''form_type'', ''manager'')]"
  have ft: "requestParameters sampleHandoffEnv ?ev ''form_type'' = Some ''manager''"
    by (simp add: requestParameters_def formRequest_def)
  from form_type_selects_variant
         [of ?ev sampleHandoffEnv "requestParameters sampleHandoffEnv ?ev"
             "''10001234567''" "''AB1 2CD''" "''a@b.com''" "''10001234567''" "''AB1 2CD''" "''a@b.com''"
             "''council-a''" "''shared-secret''" "Some ''manager''" "''manager''"
             "''https://api.example.com/webhook-callback''" sampleTable,
          OF _ _ _ _ _ sample_validate _ _ _ _ standIn_lengths(1) standIn_lengths(2)]
  have "\<exists>enc. handler_form sampleHandoffEnv ?ev sampleTable =
          (\<lparr>statusCode = 200, headers = getCorsHeaders_form (Some ''https://forms.council-a.gov.uk''),
            body = jsonStringify (JObj
              [(''success'', JBool True),
               (''submissionId'', JStr ''0b9f6c1e-5d2a-4c7e-9a41-2f6d3c8e7b10''),
               (''encryptedData'', JStr enc),
               (''redirectUrl'', JStr (''https://verification.thirdparty.com/forms/council-a/agent?eData=''
                   @ encodeURIComponent enc)),
               (''formType'', JStr ''manager''),
               (''service'', JStr ''council-a'')])\<rparr>,
           putItem sampleTable ''0b9f6c1e-5d2a-4c7e-9a41-2f6d3c8e7b10''
             [''submissionId'' \<mapsto> S ''0b9f6c1e-5d2a-4c7e-9a41-2f6d3c8e7b10'',
              ''customerNumber'' \<mapsto> S ''10001234567'',
              ''postcode'' \<mapsto> S ''AB1 2CD'',
              ''email'' \<mapsto> S ''a@b.com'',
              ''formType'' \<mapsto> S ''manager'',
              ''service'' \<mapsto> S ''council-a'',
              ''submissionDate'' \<mapsto> S ''2024-01-15T10:30:00.000Z'',
              ''status'' \<mapsto> S ''pending'',
              ''exported'' \<mapsto> BOOL False])"
    by (simp add: requestParameters_def formRequest_def sampleHandoffEnv_def orElse_def
          determineServiceFromCustomerNumber_def serviceMapping_def del: jsonStringify.simps)
       blast
  with ft show ?thesis by blast
qed

text \<open>
  An empty \<open>form_type\<close> is a supplied value that is not echoed: the answer and the stored
  item say \<open>advisor\<close>.
\<close>

theorem empty_form_type_is_stored_as_advisor:
  "requestParameters sampleHandoffEnv
     (formRequest [(''customer_number'', ''10001234567''), (''postcode'', ''AB1 2CD''),
                   (''email'', ''a@b.com''), (''form_type'', [])]) ''form_type''
     = Some []
   \<and> statusCode (fst (handler_form sampleHandoffEnv
        (formRequest [(''customer_number'', ''10001234567''), (''postcode'', ''AB1 2CD''),
                      (''email'', ''a@b.com''), (''form_type'', [])]) sampleTable)) = 200
   \<and> map_option (\<lambda>x. x ''formType'')
        (getItem (snd (handler_form sampleHandoffEnv
           (formRequest [(''customer_number'', ''10001234567''), (''postcode'', ''AB1 2CD''),
                         (''email'', ''a@b.com''), (''form_type'', [])]) sampleTable))
           ''0b9f6c1e-5d2a-4c7e-9a41-2f6d3c8e7b10'')
       = Some (Some (S ''advisor''))
   \<and> (\<exists>enc. body (fst (handler_form sampleHandoffEnv
        (formRequest [(''customer_number'', ''10001234567''), (''postcode'', ''AB1 2CD''),
                      (''email'', ''a@b.com''), (''form_type'', [])]) sampleTable))
        = jsonStringify (JObj
              [(''success'', JBool True),
               (''submissionId'', JStr ''0b9f6c1e-5d2a-4c7e-9a41-2f6d3c8e7b10''),
               (''encryptedData'', JStr enc),
               (''redirectUrl'', JStr (''https://verification.thirdparty.com/forms/council-a/agent?eData=''
                   @ encodeURIComponent enc)),
               (''formType'', JStr ''advisor''),
               (''service'', JStr ''council-a'')]))"
proof -
  let ?ev = "formRequest [(''customer_number'', ''10001234567''), (''postcode'', ''AB1 2CD''),
                          (''email'', ''a@b.com''), (''form_type'', [])]"
  have ft: "requestParameters sampleHandoffEnv ?ev ''form_type'' = Some []"
    by (simp add: requestParameters_def formRequest_def)
  from form_success
         [of ?ev sampleHandoffEnv "requestParameters sampleHandoffEnv ?ev"
             "''10001234567''" "''AB1 2CD''" "''a@b.com''" "''10001234567''" "''AB1 2CD''" "''a@b.com''"
             "''council-a''" "''shared-secret''" "Some []" "''advisor''"
             "''https://api.example.com/webhook-callback''" sampleTable,
          OF _ _ _ _ _ sample_validate _ _ _ _ standIn_lengths(1) standIn_lengths(2)]
  obtain enc where r: "handler_form sampleHandoffEnv ?ev sampleTable =
          (\<lparr>statusCode = 200, headers = getCorsHeaders_form (Some ''https://forms.council-a.gov.uk''),
            body = jsonStringify (JObj
              [(''success'', JBool True),
               (''submissionId'', JStr ''0b9f6c1e-5d2a-4c7e-9a41-2f6d3c8e7b10''),
               (''encryptedData'', JStr enc),
               (''redirectUrl'', JStr (''https://verification.thirdparty.com/forms/council-a/agent?eData=''
                   @ encodeURIComponent enc)),
               (''formType'', JStr ''advisor''),
               (''service'', JStr ''council-a'')])\<rparr>,
           putItem sampleTable ''0b9f6c1e-5d2a-4c7e-9a41-2f6d3c8e7b10''
             [''submissionId'' \<mapsto> S ''0b9f6c1e-5d2a-4c7e-9a41-2f6d3c8e7b10'',
              ''customerNumber'' \<mapsto> S ''10001234567'',
              ''postcode'' \<mapsto> S ''AB1 2CD'',
              ''email'' \<mapsto> S ''a@b.com'',
              ''formType'' \<mapsto> S ''advisor'',
              ''service'' \<mapsto> S ''council-a'',
              ''submissionDate'' \<mapsto> S ''2024-01-15T10:30:00.000Z'',
              ''status'' \<mapsto> S ''pending'',
              ''exported'' \<mapsto> BOOL False])"
    by (simp add: requestParameters_def formRequest_def sampleHandoffEnv_def orElse_def
          determineServiceFromCustomerNumber_def serviceMapping_def del: jsonStringify.simps)
       blast
  have st: "statusCode (fst (handler_form sampleHandoffEnv ?ev sampleTable)) = 200"
    by (simp only: r fst_conv response.simps)
  have stored: "map_option (\<lambda>x. x ''formType'')
        (getItem (snd (handler_form sampleHandoffEnv ?ev sampleTable))
           ''0b9f6c1e-5d2a-4c7e-9a41-2f6d3c8e7b10'') = Some (Some (S ''advisor''))"
    unfolding r by (simp add: putItem_def getItem_def hasKey_def sampleTable_def)
  have bd: "\<exists>enc. body (fst (handler_form sampleHandoffEnv ?ev sampleTable))
        = jsonStringify (JObj
              [(''success'', JBool True),
               (''submissionId'', JStr ''0b9f6c1e-5d2a-4c7e-9a41-2f6d3c8e7b10''),
               (''encryptedData'', JStr enc),
               (''redirectUrl'', JStr (''https://verification.thirdparty.com/forms/council-a/agent?eData=''
                   @ encodeURIComponent enc)),
               (''formType'', JStr ''advisor''),
               (''service'', JStr ''council-a'')])"
    by (rule exI [of _ enc]) (simp only: r fst_conv response.simps)
  from ft st stored bd show ?thesis by blast
qed


section \<open>The table invariant is preserved by every lambda\<close>

text \<open>
  \<open>wfTable\<close> says that every stored item carries a string \<open>submissionId\<close> and that
  no two items share one: the primary-key discipline of the DynamoDB table.  The three
  handlers write to the table only through \<open>PutItemCommand\<close> (form processor) and
  \<open>UpdateItemCommand\<close> (callback handler, daily export), neither of which touches the
  key attribute of an existing item, so the invariant holds of every reachable table.
\<close>

lemma wfTable_map:
  assumes wf: "wfTable t" and f: "\<And>x. keyOf (f x) = keyOf x"
  shows "wfTable (map f t)"
proof -
  have m: "map keyOf (map f t) = map keyOf t" by (simp add: f)
  have "list_all (\<lambda>it. keyOf it \<noteq> None) (map f t) = list_all (\<lambda>it. keyOf it \<noteq> None) t"
    by (simp add: list_all_iff f)
  with wf m show ?thesis unfolding wfTable_def by (simp only:) 
qed

lemma wfTable_snoc:
  assumes wf: "wfTable t" and new: "keyOf new = Some k" and free: "getItem t k = None"
  shows "wfTable (t @ [new])"
proof -
  from free have "Some k \<notin> set (map keyOf t)" by (auto simp: getItem_None_iff)
  with wf new show ?thesis by (simp add: wfTable_def)
qed

lemma wfTable_updateItem:
  assumes wf: "wfTable t" and upd: "\<And>x. upd x ''submissionId'' = x ''submissionId''"
  shows "wfTable (updateItem t k upd)"
proof (cases "getItem t k")
  case None
  have "keyOf (upd [''submissionId'' \<mapsto> S k]) = Some k"
    by (simp add: keyOf_def upd)
  with wf have "wfTable (t @ [upd [''submissionId'' \<mapsto> S k]])" using None by (rule wfTable_snoc)
  with None show ?thesis by (simp add: updateItem_def)
next
  case (Some it)
  have "\<And>x. keyOf (if hasKey k x then upd x else x) = keyOf x"
    by (simp add: keyOf_def upd)
  with wf have "wfTable (map (\<lambda>x. if hasKey k x then upd x else x) t)" by (rule wfTable_map)
  with Some show ?thesis by (simp add: updateItem_def)
qed

lemma wfTable_putItem:
  assumes wf: "wfTable t" and new: "keyOf new = Some k"
  shows "wfTable (putItem t k new)"
proof (cases "getItem t k")
  case None
  from wf new None have "wfTable (t @ [new])" by (rule wfTable_snoc)
  with None show ?thesis by (simp add: putItem_def)
next
  case (Some it)
  have "\<And>x. keyOf (if hasKey k x then new else x) = keyOf x"
    by (simp add: hasKey_keyOf new)
  with wf have "wfTable (map (\<lambda>x. if hasKey k x then new else x) t)" by (rule wfTable_map)
  with Some show ?thesis by (simp add: putItem_def)
qed

lemma wfTable_updateSubmissionStatus:
  "wfTable t \<Longrightarrow> updateSubmissionStatus env t k st d = Inr t' \<Longrightarrow> wfTable t'"
  by (auto simp: updateSubmissionStatus_def intro!: wfTable_updateItem split: option.splits)

lemma webhook_try_table:
  "handler_webhook_try env ev t = Inr (r, t') \<Longrightarrow>
   t' = t \<or> (\<exists>k st d. updateSubmissionStatus env t k st d = Inr t')"
  by (auto simp: handler_webhook_try_def Let_def
           split: sum.splits option.splits json.splits if_splits)

lemma wfTable_webhook: 
  assumes "wfTable t" shows "wfTable (snd (handler_webhook env ev t))"
proof (cases "handler_webhook_try env ev t")
  case (Inl e)
  with assms show ?thesis by (simp add: handler_webhook_def)
next
  case (Inr res)
  obtain r t' where res: "res = (r, t')" by (cases res)
  from webhook_try_table [of env ev t r t'] Inr res assms have "wfTable t'"
    by (auto dest: wfTable_updateSubmissionStatus)
  with Inr res assms show ?thesis by (simp add: handler_webhook_def)
qed

lemma store_table:
  "storeSubmissionData env t k cn pc em ft svc d = Inr t' \<Longrightarrow>
   t' = putItem t k [''submissionId'' \<mapsto> S k, ''customerNumber'' \<mapsto> S cn,
             ''postcode'' \<mapsto> S pc, ''email'' \<mapsto> S em, ''formType'' \<mapsto> S ft,
             ''service'' \<mapsto> S svc, ''submissionDate'' \<mapsto> S d,
             ''status'' \<mapsto> S ''pending'', ''exported'' \<mapsto> BOOL False]"
  by (auto simp: storeSubmissionData_def split: option.splits)

lemma wfTable_store:
  "wfTable t \<Longrightarrow> storeSubmissionData env t k cn pc em ft svc d = Inr t' \<Longrightarrow> wfTable t'"
  by (auto dest!: store_table intro!: wfTable_putItem simp: keyOf_def)

lemma form_try_table:
  "snd (handler_form_try env h p t) = t
   \<or> (\<exists>k cn pc em ft svc d. storeSubmissionData env t k cn pc em ft svc d
         = Inr (snd (handler_form_try env h p t)))"
proof (cases "orElse (orElse (p ''customer-number'') (p ''customer_number'')) None")
  case None
  then show ?thesis by (simp add: handler_form_try_def Let_def del: jsonStringify.simps)
next
  case rcn: (Some rcn)
  show ?thesis
  proof (cases "orElse (p ''postcode'') None")
    case None
    with rcn show ?thesis by (simp add: handler_form_try_def Let_def del: jsonStringify.simps)
  next
    case rpc: (Some rpc)
    show ?thesis
    proof (cases "orElse (p ''email'') None")
      case None
      with rcn rpc show ?thesis by (simp add: handler_form_try_def Let_def del: jsonStringify.simps)
    next
      case rml: (Some rml)
      show ?thesis
      proof (cases "validateAndSanitizeInput rcn (toUpperCase rpc) rml")
        case (Inl e)
        with rcn rpc rml show ?thesis
          by (simp add: handler_form_try_def Let_def del: jsonStringify.simps)
      next
        case (Inr v)
        obtain cn pc em where v: "v = (cn, pc, em)" by (cases v)
        show ?thesis
        proof (cases "determineServiceFromCustomerNumber cn")
          case (Inl e)
          with rcn rpc rml Inr v show ?thesis
            by (simp add: handler_form_try_def Let_def del: jsonStringify.simps)
        next
          case svc: (Inr svc)
          show ?thesis
          proof (cases "orElse (p ''service'') None \<noteq> None \<and> p ''service'' \<noteq> Some svc")
            case True
            with rcn rpc rml Inr v svc show ?thesis
              by (simp add: handler_form_try_def Let_def del: jsonStringify.simps)
          next
            case False
            show ?thesis
            proof (cases "getParameter env (''/forms/'' @ serviceMapping svc @ ''/test/ThirdPartySharedSecret'')")
              case (Inl e)
              with rcn rpc rml Inr v svc False show ?thesis
                by (simp add: handler_form_try_def Let_def del: jsonStringify.simps)
            next
              case secret: (Inr secret)
              let ?ft = "case orElse (p ''form_type'') None of Some f \<Rightarrow> f | None \<Rightarrow> ''advisor''"
              show ?thesis
              proof (cases "storeSubmissionData env t (randomUUID env) cn pc em ?ft svc (submissionDateNow env)")
                case (Inl e)
                with rcn rpc rml Inr v svc False secret show ?thesis
                  by (simp add: handler_form_try_def Let_def del: jsonStringify.simps)
              next
                case t': (Inr t')
                with rcn rpc rml Inr v svc False secret
                have "snd (handler_form_try env h p t) = t'"
                  by (auto simp add: handler_form_try_def Let_def simp del: jsonStringify.simps
                      split: sum.splits)
                with t' show ?thesis by metis
              qed
            qed
          qed
        qed
      qed
    qed
  qed
qed

lemma wfTable_form:
  assumes "wfTable t" shows "wfTable (snd (handler_form env ev t))"
proof -
  have s: "snd (handler_form env ev t)
           = snd (handler_form_try env (getCorsHeaders_form (origin ev)) (requestParameters env ev) t)
           \<or> snd (handler_form env ev t) = t"
    by (simp add: handler_form_def Let_def split: prod.splits sum.splits)
  from form_try_table [of env "getCorsHeaders_form (origin ev)" "requestParameters env ev" t] assms
  have "wfTable (snd (handler_form_try env (getCorsHeaders_form (origin ev)) (requestParameters env ev) t))"
    by (auto dest: wfTable_store)
  with s assms show ?thesis by auto
qed

lemma wfTable_fold_mark:
  "wfTable t \<Longrightarrow>
   wfTable (fold (\<lambda>k acc. if updateError env k = None
                          then updateItem acc k (markExported (exportedAtOf env k))
                          else acc) ids t)"
  by (induction ids arbitrary: t) (simp_all add: wfTable_updateItem markExported_def)

lemma export_table:
  "submissions (snd (handler_export env w)) = submissions w
   \<or> (\<exists>ids. submissions (snd (handler_export env w))
         = fold (\<lambda>k acc. if updateError env k = None
                          then updateItem acc k (markExported (exportedAtOf env k))
                          else acc) ids (submissions w))"
  unfolding handler_export_def Let_def markRecordsAsExported_def uploadExportFile_def
  by (simp del: jsonStringify.simps split: sum.splits option.splits prod.splits) blast

lemma wfTable_export:
  assumes "wfTable (submissions w)" shows "wfTable (submissions (snd (handler_export env w)))"
  using export_table [of env w] assms by (auto intro: wfTable_fold_mark)

end
